theory Spec2Isabelle
  imports Complex_Main
begin

section \<open>Settlement: payments and receipts applied to invoices\<close>

text \<open>
  Source: \<^verbatim>\<open>backend/routes/apPayments.js\<close> and \<^verbatim>\<open>backend/routes/receipts.js\<close>.

  Amounts are DECIMAL columns read through JavaScript numbers; they are modelled as exact
  reals, so the literal \<^verbatim>\<open>0.01\<close> is the real number \<open>1/100\<close>. JavaScript computes with
  them in binary floating point, and a column rounds what is stored in it to its scale,
  which takes the rounding error of a sum or a difference of amounts of that scale away
  again. A comparison is made on the unrounded result: where the exact values lie on the
  threshold (an amount due of exactly 0.01 after the application, an applied amount equal
  to the amount due), the rounding error decides, and the code can take the other branch
  than the model. The concrete runs below use amounts that binary floating point represents
  exactly.

  Amount and id columns are taken to be NOT NULL. Request fields that the handlers only
  copy into the inserted row (currency, method, bank account, reference, notes) are left
  out of the records of the POST requests.
\<close>

type_synonym amount = real

datatype inv_status = INV_DRAFT | INV_OPEN | INV_PAID | INV_CANCELLED | INV_VOID

datatype pay_status = DRAFT | PAID

datatype app_status = ACTIVE | REVERSED

record invoice =
  inv_total_amount :: amount
  inv_amount_paid :: amount
  inv_status :: inv_status

record payment =
  p_number :: string
  p_party_id :: int
  p_date :: string
  p_amount :: amount
  p_amount_applied :: amount
  p_status :: pay_status

record application =
  a_application_id :: int
  a_payment_id :: int
  a_invoice_id :: int
  a_applied_amount :: amount
  a_unapplied_amount :: amount
  a_date :: string
  a_status :: app_status

text \<open>
  One database for each ledger (AP: payments, AR: receipts); both have the same shape.
  \<open>parties\<close> are the rows (id, name) of the customers table, which only receipts.js reads.
  \<open>id_seq\<close> and \<open>application_seq\<close> are the counters behind the id generators, with the
  \<open>increment_by\<close> column of the AR sequences.
\<close>

record db =
  invoices :: "int \<rightharpoonup> invoice"
  payments :: "int \<rightharpoonup> payment"
  applications :: "application list"
  parties :: "(int \<times> string) list"
  id_seq :: int
  application_seq :: int
  increment_by :: int

datatype response =
    Created
  | Done
  | BadRequest string
  | NotFound string
  | ServerError string

text \<open>
  The order in which the engine evaluates the SET clause of
  \<^verbatim>\<open>UPDATE .. SET amount_paid = amount_paid + ?, status = CASE WHEN (total_amount - (amount_paid + ?)) <= 0.01 ..\<close>.
  Standard SQL evaluates every right-hand side on the old row; MySQL evaluates a
  single-table UPDATE left to right, so that the CASE reads the amount_paid just assigned.
  The statement is the same text in both files; the engine is a parameter of the model.
\<close>

datatype set_order = Simultaneous | LeftToRight

definition update_invoice_sql :: "set_order \<Rightarrow> amount \<Rightarrow> invoice \<Rightarrow> invoice" where
  "update_invoice_sql ord a iv =
     (let paid' = inv_amount_paid iv + a;
          seen = (case ord of Simultaneous \<Rightarrow> inv_amount_paid iv | LeftToRight \<Rightarrow> paid')
      in iv\<lparr>inv_amount_paid := paid',
             inv_status := (if inv_total_amount iv - (seen + a) \<le> 0.01 then INV_PAID else INV_OPEN)\<rparr>)"

text \<open>\<^verbatim>\<open>UPDATE .. WHERE invoice_id = ?\<close>: a missing row is left missing.\<close>

definition update_invoice_row :: "int \<Rightarrow> (invoice \<Rightarrow> invoice) \<Rightarrow> db \<Rightarrow> db" where
  "update_invoice_row i f d =
     (case invoices d i of
        None \<Rightarrow> d
      | Some iv \<Rightarrow> d\<lparr>invoices := (invoices d)(i \<mapsto> f iv)\<rparr>)"

subsection \<open>Request payloads\<close>

text \<open>
  One record for an application line and one for the request of either ledger:
  \<open>ar_date\<close> is \<^verbatim>\<open>applied_date || application_date\<close>; \<open>rq_party_id\<close> is \<open>supplier_id\<close> or
  \<open>customer_id\<close>, \<open>rq_party_name\<close> is \<open>customer_name\<close>, \<open>rq_number\<close> is \<open>payment_number\<close> or
  \<open>receipt_number\<close>, \<open>rq_date\<close> is \<open>payment_date\<close> or \<open>receipt_date\<close>, and \<open>rq_payment_amount\<close> is
  \<open>payment_amount\<close> or \<open>amount_received\<close>.
  A JSON field is \<open>None\<close> when absent (or null, where the handler treats both alike).
  Numeric fields are JSON numbers, and
  \<open>invoice_id\<close> an integer: the \<^verbatim>\<open>isNaN\<close> and \<^verbatim>\<open>Number.isInteger\<close> branches of the source
  reject what these types exclude.
\<close>

record app_req =
  ar_invoice_id :: "int option"
  ar_applied_amount :: "amount option"
  ar_application_amount :: "amount option"
  ar_date :: "string option"

record pay_req =
  rq_party_id :: "int option"
  rq_party_name :: "string option"
  rq_number :: "string option"
  rq_date :: "string option"
  rq_payment_amount :: "amount option"
  rq_total_amount :: "amount option"
  rq_status :: "string option"
  rq_applications :: "app_req list"

text \<open>JavaScript truthiness, and \<^verbatim>\<open>a || b\<close>, on the field types above.\<close>

definition truthy_num :: "amount option \<Rightarrow> bool" where
  "truthy_num x = (case x of None \<Rightarrow> False | Some v \<Rightarrow> v \<noteq> 0)"

definition truthy_int :: "int option \<Rightarrow> bool" where
  "truthy_int x = (case x of None \<Rightarrow> False | Some v \<Rightarrow> v \<noteq> 0)"

definition truthy_str :: "string option \<Rightarrow> bool" where
  "truthy_str x = (case x of None \<Rightarrow> False | Some s \<Rightarrow> s \<noteq> [])"

definition or_num :: "amount option \<Rightarrow> amount option \<Rightarrow> amount option" where
  "or_num a b = (if truthy_num a then a else b)"

definition or_str :: "string option \<Rightarrow> string option \<Rightarrow> string option" where
  "or_str a b = (if truthy_str a then a else b)"

datatype error =
    FailedToGenerateId
  | FailedToGenerateNumber
  | PartyIdRequired
  | DateRequired
  | AmountRequired
  | ApplicationMissingInvoiceId
  | ApplicationMissingAmount
  | ApplicationInvalidInvoiceId
  | ApplicationInvalidAmount
  | ApplicationMissingDate
  | InvoiceNotFound int
  | ExceedsAmountDue
  | BindParameterUndefined

subsection \<open>apPayments.js: POST / (create payment)\<close>

text \<open>
  Modelled from the spec: \<^verbatim>\<open>utils/apSequenceManager.js\<close> is not among the sources. Its
  \<^verbatim>\<open>getNextPaymentId\<close> and \<^verbatim>\<open>getNextPaymentApplicationId\<close> are named counters that return the
  next identifier and advance; \<^verbatim>\<open>generatePaymentNumber\<close> is a parameter \<open>gen\<close> of the
  handlers.
\<close>

definition getNextPaymentId :: "db \<Rightarrow> int \<times> db" where
  "getNextPaymentId d = (id_seq d, d\<lparr>id_seq := id_seq d + 1\<rparr>)"

definition getNextPaymentApplicationId :: "db \<Rightarrow> int \<times> db" where
  "getNextPaymentApplicationId d = (application_seq d, d\<lparr>application_seq := application_seq d + 1\<rparr>)"

text \<open>\<^verbatim>\<open>const paymentStatus = status === 'DRAFT' ? 'DRAFT' : 'PAID'\<close> (line 241).\<close>

definition paymentStatus :: "string option \<Rightarrow> pay_status" where
  "paymentStatus st = (if st = Some ''DRAFT'' then DRAFT else PAID)"

text \<open>
  The body of \<^verbatim>\<open>for (const app of applications)\<close>, lines 272-368. The state of the loop
  is the database and \<open>totalApplied\<close>; a \<^verbatim>\<open>throw\<close> is \<open>Inl\<close>.
\<close>

definition create_payment_app ::
  "set_order \<Rightarrow> pay_status \<Rightarrow> int \<Rightarrow> string \<Rightarrow> app_req \<Rightarrow> db \<times> amount \<Rightarrow> error + db \<times> amount" where
  "create_payment_app ord pst paymentId safePaymentDate app s =
     (let d = fst s; totalApplied = snd s;
          appliedAmountRaw = (case ar_applied_amount app of Some v \<Rightarrow> Some v
                              | None \<Rightarrow> ar_application_amount app)
      in case ar_invoice_id app of
           None \<Rightarrow> Inl ApplicationMissingInvoiceId
         | Some invoiceId \<Rightarrow>
        (case appliedAmountRaw of
           None \<Rightarrow> Inl ApplicationMissingAmount
         | Some appliedAmount \<Rightarrow>
        (let appliedDate = or_str (ar_date app) (Some safePaymentDate)
         in if invoiceId \<le> 0 then Inl ApplicationInvalidInvoiceId
            else if appliedAmount \<le> 0 then Inl ApplicationInvalidAmount
            else if \<not> truthy_str appliedDate then Inl ApplicationMissingDate
            else (case invoices d invoiceId of
              None \<Rightarrow> Inl (InvoiceNotFound invoiceId)
            | Some iv \<Rightarrow>
               (let totalAmount = inv_total_amount iv;
                    currentAmountPaid = inv_amount_paid iv;
                    currentAmountDue = totalAmount - currentAmountPaid;
                    unappliedAmount = max 0 (currentAmountDue - appliedAmount);
                    (applicationId, d1) = getNextPaymentApplicationId d
                in if applicationId = 0 then Inl FailedToGenerateId
                   else
                    (let d2 = d1\<lparr>applications := applications d1 @
                                 [\<lparr>a_application_id = applicationId, a_payment_id = paymentId,
                                   a_invoice_id = invoiceId, a_applied_amount = appliedAmount,
                                   a_unapplied_amount = unappliedAmount,
                                   a_date = the appliedDate, a_status = ACTIVE\<rparr>]\<rparr>;
                         d3 = (if pst = PAID
                               then update_invoice_row invoiceId (update_invoice_sql ord appliedAmount) d2
                               else d2)
                     in Inr (d3, totalApplied + appliedAmount)))))))"

fun create_payment_apps ::
  "set_order \<Rightarrow> pay_status \<Rightarrow> int \<Rightarrow> string \<Rightarrow> app_req list \<Rightarrow> db \<times> amount \<Rightarrow> error + db \<times> amount" where
  "create_payment_apps ord pst pid dt [] s = Inr s"
| "create_payment_apps ord pst pid dt (app # apps) s =
     (case create_payment_app ord pst pid dt app s of
        Inl e \<Rightarrow> Inl e
      | Inr s' \<Rightarrow> create_payment_apps ord pst pid dt apps s')"

text \<open>\<^verbatim>\<open>INSERT INTO ap_payments (..) VALUES (..)\<close>: the header row.\<close>

definition insert_payment :: "int \<Rightarrow> payment \<Rightarrow> db \<Rightarrow> db" where
  "insert_payment pid p d = d\<lparr>payments := (payments d)(pid \<mapsto> p)\<rparr>"

text \<open>\<^verbatim>\<open>UPDATE ap_payments SET amount_applied = ? WHERE payment_id = ?\<close>.\<close>

definition set_amount_applied :: "int \<Rightarrow> amount \<Rightarrow> db \<Rightarrow> db" where
  "set_amount_applied pid t d =
     (case payments d pid of
        None \<Rightarrow> d
      | Some p \<Rightarrow> d\<lparr>payments := (payments d)(pid \<mapsto> p\<lparr>p_amount_applied := t\<rparr>)\<rparr>)"

text \<open>
  The transaction body of the handler (lines 207-378), between START TRANSACTION and
  COMMIT.
\<close>

definition create_payment_txn :: "set_order \<Rightarrow> (int \<Rightarrow> string) \<Rightarrow> pay_req \<Rightarrow> db \<Rightarrow> error + db" where
  "create_payment_txn ord gen rq d0 =
     (let paymentAmount = or_num (rq_payment_amount rq) (rq_total_amount rq);
          (paymentId, d1) = getNextPaymentId d0
      in if paymentId = 0 then Inl FailedToGenerateId
         else
          (let generatedPaymentNumber =
                 (if truthy_str (rq_number rq) then the (rq_number rq) else gen paymentId)
           in if generatedPaymentNumber = [] then Inl FailedToGenerateNumber
              else if \<not> truthy_int (rq_party_id rq) then Inl PartyIdRequired
              else if \<not> truthy_str (rq_date rq) then Inl DateRequired
              else if \<not> truthy_num paymentAmount \<or> the paymentAmount \<le> 0 then Inl AmountRequired
              else
               (let pst = paymentStatus (rq_status rq);
                    d2 = insert_payment paymentId
                           \<lparr>p_number = generatedPaymentNumber, p_party_id = the (rq_party_id rq),
                            p_date = the (rq_date rq), p_amount = the paymentAmount,
                            p_amount_applied = 0, p_status = pst\<rparr> d1
                in if rq_applications rq \<noteq> []
                   then (case create_payment_apps ord pst paymentId (the (rq_date rq))
                                 (rq_applications rq) (d2, 0) of
                           Inl e \<Rightarrow> Inl e
                         | Inr (d3, totalApplied) \<Rightarrow> Inr (set_amount_applied paymentId totalApplied d3))
                   else Inr d2)))"

text \<open>
  The handler. The two early returns precede the transaction; a \<^verbatim>\<open>throw\<close> inside it
  runs ROLLBACK, which gives back the database the handler started from, and answers 500.
  The handler sends START TRANSACTION, COMMIT and ROLLBACK through the pool; the model takes
  the statements of one request to run on one connection, so that ROLLBACK undoes them all.
\<close>

definition number_exists :: "db \<Rightarrow> string \<Rightarrow> bool" where
  "number_exists d n = (\<exists>p \<in> ran (payments d). p_number p = n)"

definition create_payment :: "set_order \<Rightarrow> (int \<Rightarrow> string) \<Rightarrow> pay_req \<Rightarrow> db \<Rightarrow> response \<times> db" where
  "create_payment ord gen rq d0 =
     (let paymentAmount = or_num (rq_payment_amount rq) (rq_total_amount rq)
      in if \<not> truthy_int (rq_party_id rq) \<or> \<not> truthy_str (rq_date rq) \<or> \<not> truthy_num paymentAmount
         then (BadRequest ''Supplier ID, payment date, and payment amount are required'', d0)
         else if truthy_str (rq_number rq) \<and> number_exists d0 (the (rq_number rq))
         then (BadRequest ''Payment number already exists'', d0)
         else (case create_payment_txn ord gen rq d0 of
                 Inl e \<Rightarrow> (ServerError ''Failed to create payment'', d0)
               | Inr d \<Rightarrow> (Created, d)))"

subsection \<open>receipts.js: POST / (create receipt)\<close>

text \<open>
  \<^verbatim>\<open>getNextSequenceValue\<close> of receipts.js (lines 8-18) adds \<open>increment_by\<close> and returns the
  value it then reads. It runs on the pool, outside the handler's transaction; the model's
  ROLLBACK restores the counters with the rest of the database, and no theorem below reads
  them after a failure.
\<close>

definition ar_next_id :: "db \<Rightarrow> int \<times> db" where
  "ar_next_id d = (id_seq d + increment_by d, d\<lparr>id_seq := id_seq d + increment_by d\<rparr>)"

definition ar_next_application_id :: "db \<Rightarrow> int \<times> db" where
  "ar_next_application_id d =
     (application_seq d + increment_by d, d\<lparr>application_seq := application_seq d + increment_by d\<rparr>)"

text \<open>\<^verbatim>\<open>const receiptStatus = status === 'PAID' ? 'PAID' : 'DRAFT'\<close> (line 151).\<close>

definition receiptStatus :: "string option \<Rightarrow> pay_status" where
  "receiptStatus st = (if st = Some ''PAID'' then PAID else DRAFT)"

text \<open>
  Lines 272-324: the UPDATE, then the re-read of the row and the forced
  \<^verbatim>\<open>UPDATE ar_invoices SET status = ?\<close> when the status read back differs from the
  \<open>newStatus\<close> computed in JavaScript from the values read before the UPDATE.
\<close>

definition receipt_invoice_update :: "set_order \<Rightarrow> amount \<Rightarrow> invoice \<Rightarrow> invoice" where
  "receipt_invoice_update ord validAppliedAmount iv =
     (let totalAmount = inv_total_amount iv;
          currentAmountPaid = inv_amount_paid iv;
          newAmountPaid = currentAmountPaid + validAppliedAmount;
          remainingAmountDue = totalAmount - newAmountPaid;
          newStatus = (if remainingAmountDue \<le> 0.01 then INV_PAID else INV_OPEN);
          verified = update_invoice_sql ord validAppliedAmount iv
      in if inv_status verified \<noteq> newStatus then verified\<lparr>inv_status := newStatus\<rparr> else verified)"

text \<open>The body of the loop over the applications, lines 174-328.\<close>

definition create_receipt_app ::
  "set_order \<Rightarrow> pay_status \<Rightarrow> int \<Rightarrow> string \<Rightarrow> app_req \<Rightarrow> db \<times> amount \<Rightarrow> error + db \<times> amount" where
  "create_receipt_app ord rst receiptId receipt_date app s =
     (let d = fst s; totalApplied = snd s;
          appliedAmount = or_num (ar_application_amount app) (ar_applied_amount app)
      in if \<not> truthy_int (ar_invoice_id app) then Inl ApplicationMissingInvoiceId
         else if appliedAmount = None then Inl ApplicationMissingAmount
         else
          (let invoiceId = the (ar_invoice_id app);
               validAppliedAmount = the appliedAmount
           in case invoices d invoiceId of
                None \<Rightarrow> Inl (InvoiceNotFound invoiceId)
              | Some iv \<Rightarrow>
                 (let totalAmount = inv_total_amount iv;
                      currentAmountPaid = inv_amount_paid iv;
                      currentAmountDue = totalAmount - currentAmountPaid
                  in if validAppliedAmount \<le> 0 then Inl ApplicationInvalidAmount
                     else if validAppliedAmount > currentAmountDue then Inl ExceedsAmountDue
                     else
                      (let unappliedAmount = max 0 (currentAmountDue - validAppliedAmount);
                           (applicationId, d1) = ar_next_application_id d;
                           d2 = d1\<lparr>applications := applications d1 @
                                   [\<lparr>a_application_id = applicationId, a_payment_id = receiptId,
                                     a_invoice_id = invoiceId, a_applied_amount = validAppliedAmount,
                                     a_unapplied_amount = unappliedAmount,
                                     a_date = the (or_str (ar_date app) (Some receipt_date)),
                                     a_status = ACTIVE\<rparr>]\<rparr>;
                           d3 = (if rst = PAID
                                 then update_invoice_row invoiceId
                                        (receipt_invoice_update ord validAppliedAmount) d2
                                 else d2)
                       in Inr (d3, totalApplied + validAppliedAmount)))))"

fun create_receipt_apps ::
  "set_order \<Rightarrow> pay_status \<Rightarrow> int \<Rightarrow> string \<Rightarrow> app_req list \<Rightarrow> db \<times> amount \<Rightarrow> error + db \<times> amount" where
  "create_receipt_apps ord rst rid dt [] s = Inr s"
| "create_receipt_apps ord rst rid dt (app # apps) s =
     (case create_receipt_app ord rst rid dt app s of
        Inl e \<Rightarrow> Inl e
      | Inr s' \<Rightarrow> create_receipt_apps ord rst rid dt apps s')"

text \<open>
  The customer: by \<open>customer_id\<close> when given (it must exist), else the first row with the
  given \<open>customer_name\<close> (lines 114-148).
\<close>

definition resolve_customer :: "db \<Rightarrow> pay_req \<Rightarrow> string + int" where
  "resolve_customer d rq =
     (if truthy_int (rq_party_id rq)
      then (if the (rq_party_id rq) \<in> set (map fst (parties d)) then Inr (the (rq_party_id rq))
            else Inl ''Customer not found'')
      else if truthy_str (rq_party_name rq)
      then (case filter (\<lambda>c. snd c = the (rq_party_name rq)) (parties d) of
              [] \<Rightarrow> Inl ''Customer not found. Please provide customer_id.''
            | c # _ \<Rightarrow> Inr (fst c))
      else Inl ''Either customer_id or customer_name must be provided'')"

text \<open>
  The handler, lines 71-353: \<open>create_receipt_txn\<close> is what follows the resolution of the
  customer. Every rejection answers 400 after a ROLLBACK; the receipt number is stored as
  given (\<open>[]\<close> stands for NULL). The database returned is the committed one.
\<close>

definition create_receipt_txn :: "set_order \<Rightarrow> pay_req \<Rightarrow> int \<Rightarrow> db \<Rightarrow> error + db" where
  "create_receipt_txn ord rq customerId d0 =
     (let receiptAmount = or_num (rq_total_amount rq) (rq_payment_amount rq);
          rst = receiptStatus (rq_status rq);
          (receiptId, d1) = ar_next_id d0;
          d2 = insert_payment receiptId
                 \<lparr>p_number = (case rq_number rq of None \<Rightarrow> [] | Some n \<Rightarrow> n),
                  p_party_id = customerId, p_date = the (rq_date rq),
                  p_amount = the receiptAmount, p_amount_applied = 0, p_status = rst\<rparr> d1
      in if rq_applications rq \<noteq> []
         then (case create_receipt_apps ord rst receiptId (the (rq_date rq))
                       (rq_applications rq) (d2, 0) of
                 Inl e \<Rightarrow> Inl e
               | Inr (d3, totalApplied) \<Rightarrow> Inr (set_amount_applied receiptId totalApplied d3))
         else Inr d2)"

definition create_receipt :: "set_order \<Rightarrow> pay_req \<Rightarrow> db \<Rightarrow> response \<times> db" where
  "create_receipt ord rq d0 =
     (let receiptAmount = or_num (rq_total_amount rq) (rq_payment_amount rq)
      in if \<not> truthy_str (rq_date rq) \<or> \<not> truthy_num receiptAmount
         then (BadRequest ''Receipt date and amount are required'', d0)
         else if truthy_str (rq_number rq) \<and> number_exists d0 (the (rq_number rq))
         then (BadRequest ''Receipt number already exists'', d0)
         else (case resolve_customer d0 rq of
           Inl msg \<Rightarrow> (BadRequest msg, d0)
         | Inr customerId \<Rightarrow>
            (case create_receipt_txn ord rq customerId d0 of
               Inl e \<Rightarrow> (BadRequest ''Invalid application'', d0)
             | Inr d \<Rightarrow> (Created, d))))"

text \<open>
  For a line without invoice id or amount (line 180) the handler sends its ROLLBACK through
  the pool, that is on another connection, and returns: the 400 is answered with nothing
  committed, and the \<^verbatim>\<open>finally\<close> block releases the handler's connection with its
  transaction open. \<open>create_receipt_left_open\<close> is the state of that transaction, the header
  and the lines before the refused one, and \<open>None\<close> when the handler has closed its
  transaction.
\<close>

fun receipt_apps_left_open ::
  "set_order \<Rightarrow> pay_status \<Rightarrow> int \<Rightarrow> string \<Rightarrow> app_req list \<Rightarrow> db \<times> amount \<Rightarrow> db option" where
  "receipt_apps_left_open ord rst rid dt [] s = None"
| "receipt_apps_left_open ord rst rid dt (app # apps) s =
     (case create_receipt_app ord rst rid dt app s of
        Inl e \<Rightarrow> (if e = ApplicationMissingInvoiceId \<or> e = ApplicationMissingAmount
                   then Some (fst s) else None)
      | Inr s' \<Rightarrow> receipt_apps_left_open ord rst rid dt apps s')"

definition create_receipt_left_open :: "set_order \<Rightarrow> pay_req \<Rightarrow> db \<Rightarrow> db option" where
  "create_receipt_left_open ord rq d0 =
     (let receiptAmount = or_num (rq_total_amount rq) (rq_payment_amount rq)
      in if \<not> truthy_str (rq_date rq) \<or> \<not> truthy_num receiptAmount then None
         else if truthy_str (rq_number rq) \<and> number_exists d0 (the (rq_number rq)) then None
         else (case resolve_customer d0 rq of
           Inl msg \<Rightarrow> None
         | Inr customerId \<Rightarrow>
            (let rst = receiptStatus (rq_status rq);
                 (receiptId, d1) = ar_next_id d0;
                 d2 = insert_payment receiptId
                        \<lparr>p_number = (case rq_number rq of None \<Rightarrow> [] | Some n \<Rightarrow> n),
                         p_party_id = customerId, p_date = the (rq_date rq),
                         p_amount = the receiptAmount, p_amount_applied = 0, p_status = rst\<rparr> d1
             in receipt_apps_left_open ord rst receiptId (the (rq_date rq))
                  (rq_applications rq) (d2, 0))))"

subsection \<open>The body of a PUT request\<close>





subsection \<open>apPayments.js: PUT /:id (update payment, DRAFT to PAID promotion)\<close>




definition update_payment_row :: "int \<Rightarrow> (payment \<Rightarrow> payment) \<Rightarrow> db \<Rightarrow> db" where
  "update_payment_row pid f d =
     (case payments d pid of
        None \<Rightarrow> d
      | Some p \<Rightarrow> d\<lparr>payments := (payments d)(pid \<mapsto> f p)\<rparr>)"









subsection \<open>apPayments.js: POST /:id/applications (add payment application)\<close>

text \<open>
  Lines 747-854. The two comparisons are the only validation of \<open>applied_amount\<close>; an
  absent amount makes the INSERT throw on an undefined bind parameter, which answers 500.
  The invoice is updated whatever the status of the payment.
\<close>

definition add_application ::
  "set_order \<Rightarrow> string \<Rightarrow> int \<Rightarrow> int \<Rightarrow> amount option \<Rightarrow> string option \<Rightarrow> db \<Rightarrow> response \<times> db" where
  "add_application ord today pid invoice_id applied_amount applied_date d0 =
     (case payments d0 pid of
        None \<Rightarrow> (NotFound ''Payment not found'', d0)
      | Some pm \<Rightarrow>
     (case invoices d0 invoice_id of
        None \<Rightarrow> (NotFound ''Invoice not found'', d0)
      | Some iv \<Rightarrow>
     (case applied_amount of
        None \<Rightarrow> (ServerError ''Failed to create payment application'', d0)
      | Some a \<Rightarrow>
         (let remainingPaymentAmount = p_amount pm - p_amount_applied pm;
              remainingInvoiceAmount = inv_total_amount iv - inv_amount_paid iv
          in if a > remainingPaymentAmount
             then (BadRequest ''Applied amount exceeds remaining payment amount'', d0)
             else if a > remainingInvoiceAmount
             then (BadRequest ''Applied amount exceeds remaining invoice amount'', d0)
             else
              (let currentAmountDue = inv_total_amount iv - inv_amount_paid iv;
                   unappliedAmount = max 0 (currentAmountDue - a);
                   (applicationId, d1) = getNextPaymentApplicationId d0;
                   d2 = d1\<lparr>applications := applications d1 @
                           [\<lparr>a_application_id = applicationId, a_payment_id = pid,
                             a_invoice_id = invoice_id, a_applied_amount = a,
                             a_unapplied_amount = unappliedAmount,
                             a_date = (if truthy_str applied_date then the applied_date else today),
                             a_status = ACTIVE\<rparr>]\<rparr>;
                   d3 = update_payment_row pid
                          (\<lambda>p. p\<lparr>p_amount_applied := p_amount_applied p + a\<rparr>) d2;
                   d4 = update_invoice_row invoice_id (update_invoice_sql ord a) d3
               in (Created, d4))))))"

subsection \<open>receipts.js: PUT /:id (update receipt, DRAFT to PAID promotion)\<close>










subsection \<open>Vocabulary of the settlement properties\<close>

text \<open>
  The amount an application line carries (as each handler reads it), the sum applied to
  one invoice by a list of lines, and what a stored application row has in common with
  the line it was created from.
\<close>

definition app_amount :: "app_req \<Rightarrow> amount option" where
  "app_amount app = (case ar_applied_amount app of Some v \<Rightarrow> Some v | None \<Rightarrow> ar_application_amount app)"

definition applied_to :: "(app_req \<Rightarrow> amount option) \<Rightarrow> int \<Rightarrow> app_req list \<Rightarrow> amount" where
  "applied_to amt i apps = sum_list (map (\<lambda>app. the (amt app)) (filter (\<lambda>app. ar_invoice_id app = Some i) apps))"


definition receipt_app_amount :: "app_req \<Rightarrow> amount option" where
  "receipt_app_amount app = or_num (ar_application_amount app) (ar_applied_amount app)"



subsection \<open>A small ledger for concrete runs\<close>

text \<open>
  One invoice of 100.00 with nothing paid, one customer or supplier, and a request of
  50.00 whose only application line names that invoice.
\<close>

definition ex_db :: db where
  "ex_db = \<lparr>invoices = [1 \<mapsto> \<lparr>inv_total_amount = 100, inv_amount_paid = 0, inv_status = INV_OPEN\<rparr>],
            payments = Map.empty, applications = [], parties = [(5, ''Acme'')],
            id_seq = 7, application_seq = 20, increment_by = 1\<rparr>"

definition ex_app :: "amount \<Rightarrow> app_req" where
  "ex_app a = \<lparr>ar_invoice_id = Some 1, ar_applied_amount = None, ar_application_amount = Some a,
              ar_date = None\<rparr>"

definition ex_req :: "string option \<Rightarrow> app_req list \<Rightarrow> pay_req" where
  "ex_req st apps = \<lparr>rq_party_id = Some 5, rq_party_name = None, rq_number = None,
                    rq_date = Some ''2025-01-31'', rq_payment_amount = Some 50, rq_total_amount = None,
                    rq_status = st, rq_applications = apps\<rparr>"

definition ex_gen :: "int \<Rightarrow> string" where
  "ex_gen n = ''PAY''"

definition ex_db_cancelled :: db where
  "ex_db_cancelled =
     ex_db\<lparr>invoices := [1 \<mapsto> \<lparr>inv_total_amount = 100, inv_amount_paid = 0, inv_status = INV_CANCELLED\<rparr>]\<rparr>"

definition ex_db_draft :: db where
  "ex_db_draft =
     ex_db\<lparr>id_seq := 8, application_seq := 21,
            payments := [7 \<mapsto> \<lparr>p_number = ''PAY'', p_party_id = 5, p_date = ''2025-01-31'',
                               p_amount = 50, p_amount_applied = 40, p_status = DRAFT\<rparr>],
            applications := [\<lparr>a_application_id = 20, a_payment_id = 7, a_invoice_id = 1,
                              a_applied_amount = 40, a_unapplied_amount = 60,
                              a_date = ''2025-01-31'', a_status = ACTIVE\<rparr>]\<rparr>"



section \<open>Procurement: purchase orders, goods receipts, inventory\<close>

text \<open>
  Source: \<^verbatim>\<open>backend/routes/procurement.js\<close>. Quantities are DECIMAL columns, modelled as
  exact reals like the amounts. The code applies \<^verbatim>\<open>Math.round\<close>, \<^verbatim>\<open>Math.floor\<close> and \<^verbatim>\<open>%\<close>
  to binary floating point: a product or quotient that it does not represent exactly can
  fall on the other side of an integer, or of a half, than the exact one (\<^verbatim>\<open>1.13 * 100\<close> is
  \<^verbatim>\<open>112.99999999999999\<close>), and the code then stores a neighbouring value.
\<close>

subsection \<open>updatePOStatusFromReceipts (lines 1373-1428)\<close>

datatype po_status = PO_DRAFT | PO_APPROVED | PO_RELEASED | PO_RECEIVED | PO_CLOSED | PO_CANCELLED

record po_line =
  pl_line_id :: int
  pl_header_id :: int
  pl_quantity :: real

record po_receipt_line =
  prl_receipt_id :: int
  prl_line_id :: "int option"
  prl_quantity_received :: real
  prl_quantity_accepted :: real

record po_db =
  po_headers :: "int \<rightharpoonup> po_status"
  po_lines :: "po_line list"
  po_receipt_lines :: "po_receipt_line list"

text \<open>
  \<^verbatim>\<open>FROM po_lines pl LEFT JOIN po_receipt_lines prl ON prl.line_id = pl.line_id WHERE pl.header_id = ?\<close>:
  one row per matching pair, and one row with NULLs for a line that no receipt line matches.
\<close>

definition po_receipt_join :: "po_db \<Rightarrow> int \<Rightarrow> (po_line \<times> po_receipt_line option) list" where
  "po_receipt_join d headerId =
     concat (map (\<lambda>pl. case filter (\<lambda>prl. prl_line_id prl = Some (pl_line_id pl)) (po_receipt_lines d) of
                          [] \<Rightarrow> [(pl, None)]
                        | ms \<Rightarrow> map (\<lambda>m. (pl, Some m)) ms)
                 (filter (\<lambda>pl. pl_header_id pl = headerId) (po_lines d)))"

text \<open>
  The three aggregates of the SELECT. \<^verbatim>\<open>SUM\<close> over no rows is NULL, which
  \<^verbatim>\<open>Number(..) || 0\<close> turns into 0, the value of \<open>sum_list\<close> on the empty list.
\<close>

definition total_quantity :: "(po_line \<times> po_receipt_line option) list \<Rightarrow> real" where
  "total_quantity rows = sum_list (map (\<lambda>r. pl_quantity (fst r)) rows)"

definition total_accepted :: "(po_line \<times> po_receipt_line option) list \<Rightarrow> real" where
  "total_accepted rows =
     sum_list (map (\<lambda>r. case snd r of None \<Rightarrow> 0 | Some m \<Rightarrow> prl_quantity_accepted m) rows)"

definition total_received :: "(po_line \<times> po_receipt_line option) list \<Rightarrow> real" where
  "total_received rows =
     sum_list (map (\<lambda>r. case snd r of None \<Rightarrow> 0 | Some m \<Rightarrow> prl_quantity_received m) rows)"

definition updatePOStatusFromReceipts :: "int \<Rightarrow> po_db \<Rightarrow> po_db" where
  "updatePOStatusFromReceipts headerId d =
     (let rows = po_receipt_join d headerId;
          totalQty = total_quantity rows;
          totalAccepted = total_accepted rows;
          totalReceived = total_received rows
      in if totalQty \<le> 0 then d
         else
          (let newStatus = (if totalAccepted \<ge> totalQty then Some PO_CLOSED
                            else if totalReceived > 0 then Some PO_RECEIVED
                            else None)
           in case newStatus of
                None \<Rightarrow> d
              | Some st \<Rightarrow>
                 (case po_headers d headerId of
                    None \<Rightarrow> d
                  | Some cur \<Rightarrow>
                     if cur \<noteq> PO_CANCELLED then d\<lparr>po_headers := (po_headers d)(headerId \<mapsto> st)\<rparr>
                     else d)))"

text \<open>
  POST /receipts (lines 2241-2389), as far as the purchase-order status goes: the receipt
  lines are inserted, then the status is recomputed.
\<close>

definition create_goods_receipt :: "int \<Rightarrow> po_receipt_line list \<Rightarrow> po_db \<Rightarrow> po_db" where
  "create_goods_receipt header_id lines d =
     updatePOStatusFromReceipts header_id (d\<lparr>po_receipt_lines := po_receipt_lines d @ lines\<rparr>)"

subsection \<open>Inventory: updateInventoryFromGRN (lines 1229-1371) and the reversal of PUT /receipts/:id\<close>

record inventory_detail =
  box_quantity :: real
  packet_quantity :: real

record grn_line =
  gl_item_code :: string
  gl_quantity_accepted :: real
  gl_po_packet_quantity :: real

text \<open>\<^verbatim>\<open>Math.round(x)\<close> rounds to the nearest integer, a half upwards.\<close>

definition js_round :: "real \<Rightarrow> real" where
  "js_round x = of_int \<lfloor>x + 1 / 2\<rfloor>"

text \<open>
  The body of the loop over the receipt lines (lines 1273-1327) for a line whose item has
  the active detail row \<open>detail\<close>: the packets per box to store (when the row had none) and the
  new box quantity. \<open>None\<close> is the \<^verbatim>\<open>continue\<close> of a line with nothing accepted.
\<close>

definition grn_line_update :: "bool \<Rightarrow> grn_line \<Rightarrow> inventory_detail \<Rightarrow> inventory_detail option" where
  "grn_line_update isReversal line detail =
     (let acceptedQty = gl_quantity_accepted line
      in if acceptedQty \<le> 0 then None
         else
          (let currentBoxQty = box_quantity detail;
               packetsPerBox = (if packet_quantity detail \<le> 0
                                then (if gl_po_packet_quantity line > 0 then gl_po_packet_quantity line else 1)
                                else packet_quantity detail);
               totalUnits = currentBoxQty * packetsPerBox;
               newTotalUnits = (if isReversal then max 0 (totalUnits - acceptedQty)
                                else totalUnits + acceptedQty);
               newBoxQty = newTotalUnits / packetsPerBox;
               newBoxQtyRounded = js_round (newBoxQty * 100) / 100
           in Some \<lparr>box_quantity = newBoxQtyRounded, packet_quantity = packetsPerBox\<rparr>))"

text \<open>
  The whole function on the inventory (item code to active detail row). Every line is
  computed from the rows read before the loop, and the batched
  \<^verbatim>\<open>UPDATE .. SET box_quantity = CASE id WHEN ? THEN ? ..\<close> takes, for a row named by several
  lines, the first of them.
\<close>

definition updateInventoryFromGRN ::
  "bool \<Rightarrow> grn_line list \<Rightarrow> (string \<rightharpoonup> inventory_detail) \<Rightarrow> (string \<rightharpoonup> inventory_detail)" where
  "updateInventoryFromGRN isReversal receiptLines inventory =
     foldr (\<lambda>line acc.
              case inventory (gl_item_code line) of
                None \<Rightarrow> acc
              | Some detail \<Rightarrow>
                 (case grn_line_update isReversal line detail of
                    None \<Rightarrow> acc
                  | Some detail' \<Rightarrow> acc(gl_item_code line \<mapsto> detail')))
           (filter (\<lambda>line. gl_item_code line \<noteq> [] \<and> gl_quantity_accepted line > 0) receiptLines)
           inventory"

text \<open>
  PUT /receipts/:id, lines 2461-2483: the reversal of an old receipt line.
  \<^verbatim>\<open>newTotalUnits % currentPacketQty\<close> on non-negative operands is the remainder of the
  floored division.
\<close>

definition put_reverse_line :: "real \<Rightarrow> inventory_detail \<Rightarrow> inventory_detail option" where
  "put_reverse_line oldAcceptedQty detail =
     (if oldAcceptedQty \<le> 0 then None
      else
       (let currentBoxQty = box_quantity detail;
            currentPacketQty = packet_quantity detail;
            totalUnits = currentBoxQty * currentPacketQty
        in if currentPacketQty > 0
           then
            (let newTotalUnits = max 0 (totalUnits - oldAcceptedQty);
                 newBoxQty = of_int \<lfloor>newTotalUnits / currentPacketQty\<rfloor>;
                 newPacketQty = newTotalUnits - currentPacketQty * of_int \<lfloor>newTotalUnits / currentPacketQty\<rfloor>
             in Some \<lparr>box_quantity = newBoxQty, packet_quantity = newPacketQty\<rparr>)
           else None))"

definition put_reverse_old_lines ::
  "grn_line list \<Rightarrow> (string \<rightharpoonup> inventory_detail) \<Rightarrow> (string \<rightharpoonup> inventory_detail)" where
  "put_reverse_old_lines oldLines inventory =
     foldr (\<lambda>line acc.
              case inventory (gl_item_code line) of
                None \<Rightarrow> acc
              | Some detail \<Rightarrow>
                 (case put_reverse_line (gl_quantity_accepted line) detail of
                    None \<Rightarrow> acc
                  | Some detail' \<Rightarrow> acc(gl_item_code line \<mapsto> detail')))
           (filter (\<lambda>line. gl_item_code line \<noteq> [] \<and> gl_quantity_accepted line > 0) oldLines)
           inventory"

subsection \<open>Sequences: getNextSequenceValue (lines 8-30)\<close>

datatype proc_error =
    SequenceNotFound string
  | ConfigNotFound string
  | NoLineItems

record seq_tables =
  ap_sequences :: "string \<rightharpoonup> int"
  ar_sequences :: "string \<rightharpoonup> int"

text \<open>
  One caller on its own: the table is chosen by the prefix \<^verbatim>\<open>AP_\<close>, the value read is
  returned and the row is advanced by one.
\<close>

definition getNextSequenceValue :: "string \<Rightarrow> seq_tables \<Rightarrow> proc_error + int \<times> seq_tables" where
  "getNextSequenceValue sequenceName t =
     (if take 3 sequenceName = ''AP_''
      then (case ap_sequences t sequenceName of
              None \<Rightarrow> Inl (SequenceNotFound sequenceName)
            | Some currentValue \<Rightarrow>
                Inr (currentValue, t\<lparr>ap_sequences := (ap_sequences t)(sequenceName \<mapsto> currentValue + 1)\<rparr>))
      else (case ar_sequences t sequenceName of
              None \<Rightarrow> Inl (SequenceNotFound sequenceName)
            | Some currentValue \<Rightarrow>
                Inr (currentValue, t\<lparr>ar_sequences := (ar_sequences t)(sequenceName \<mapsto> currentValue + 1)\<rparr>)))"

fun allocate_n :: "nat \<Rightarrow> string \<Rightarrow> seq_tables \<Rightarrow> proc_error + int list \<times> seq_tables" where
  "allocate_n 0 name t = Inr ([], t)"
| "allocate_n (Suc n) name t =
     (case getNextSequenceValue name t of
        Inl e \<Rightarrow> Inl e
      | Inr (v, t') \<Rightarrow>
         (case allocate_n n name t' of
            Inl e \<Rightarrow> Inl e
          | Inr (vs, t'') \<Rightarrow> Inr (v # vs, t'')))"

subsection \<open>Two callers on one counter row\<close>

text \<open>
  The statements that the routes run on a counter row, and the row as the engine holds
  it: the committed value, the value written but not yet committed by the transaction
  holding the row lock, and that holder.
  \<^item> \<^verbatim>\<open>SELECT current_value .. WHERE sequence_name = ?\<close> is a consistent read: it takes no
    lock, never waits, and sees the committed value (or the reader's own write).
  \<^item> \<^verbatim>\<open>SELECT .. FOR UPDATE\<close> and \<^verbatim>\<open>UPDATE .. SET current_value = current_value + 1\<close> take the
    row lock, and wait while another transaction holds it; they work on the latest value.
  \<^item> COMMIT publishes the write and frees the lock.
  A schedule is the order in which the engine runs the statements of the callers; a
  statement that would have to wait cannot be the next one, so such a schedule does not run.
\<close>

datatype stmt = SelectPlain | SelectForUpdate | UpdateIncrement | Commit

record counter_row =
  committed :: int
  pending :: "int option"
  lock_holder :: "nat option"
  was_read :: "nat \<rightharpoonup> int"

definition latest :: "counter_row \<Rightarrow> int" where
  "latest r = (case pending r of None \<Rightarrow> committed r | Some v \<Rightarrow> v)"

definition may_lock :: "nat \<Rightarrow> counter_row \<Rightarrow> bool" where
  "may_lock t r = (lock_holder r = None \<or> lock_holder r = Some t)"

fun exec_stmt :: "nat \<Rightarrow> stmt \<Rightarrow> counter_row \<Rightarrow> counter_row option" where
  "exec_stmt t SelectPlain r =
     Some (r\<lparr>was_read := (was_read r)(t \<mapsto> (if lock_holder r = Some t then latest r else committed r))\<rparr>)"
| "exec_stmt t SelectForUpdate r =
     (if may_lock t r
      then Some (r\<lparr>lock_holder := Some t, was_read := (was_read r)(t \<mapsto> latest r)\<rparr>)
      else None)"
| "exec_stmt t UpdateIncrement r =
     (if may_lock t r
      then Some (r\<lparr>lock_holder := Some t, pending := Some (latest r + 1)\<rparr>)
      else None)"
| "exec_stmt t Commit r =
     (if lock_holder r = Some t
      then Some (r\<lparr>committed := latest r, pending := None, lock_holder := None\<rparr>)
      else Some r)"

fun run_schedule :: "(nat \<times> stmt) list \<Rightarrow> counter_row \<Rightarrow> counter_row option" where
  "run_schedule [] r = Some r"
| "run_schedule ((t, st) # rest) r =
     (case exec_stmt t st r of None \<Rightarrow> None | Some r' \<Rightarrow> run_schedule rest r')"

text \<open>
  The statements of one allocation up to the COMMIT of its handler: as
  getNextSequenceValue issues them (lines 12-27, and the line ids of POST /purchase-orders
  at 1705-1715), and as POST /purchase-orders issues them for the header id (lines
  1573-1589), where the SELECT has no \<^verbatim>\<open>FOR UPDATE\<close>.
\<close>

definition locked_allocation :: "nat \<Rightarrow> (nat \<times> stmt) list" where
  "locked_allocation t = [(t, SelectForUpdate), (t, UpdateIncrement), (t, Commit)]"

definition header_id_allocation :: "nat \<Rightarrow> (nat \<times> stmt) list" where
  "header_id_allocation t = [(t, SelectPlain), (t, UpdateIncrement), (t, Commit)]"

text \<open>
  POST /requisitions (lines 1044-1051) calls getNextSequenceValue on a connection on which
  no transaction was begun: each statement is then a transaction of its own, and the row
  lock of the \<^verbatim>\<open>SELECT .. FOR UPDATE\<close> ends with that statement.
\<close>

definition autocommit_allocation :: "nat \<Rightarrow> (nat \<times> stmt) list" where
  "autocommit_allocation t = [(t, SelectForUpdate), (t, Commit), (t, UpdateIncrement), (t, Commit)]"

fun interleavings :: "'a list \<Rightarrow> 'a list \<Rightarrow> 'a list list" where
  "interleavings [] ys = [ys]"
| "interleavings xs [] = [xs]"
| "interleavings (x # xs) (y # ys) =
     map ((#) x) (interleavings xs (y # ys)) @ map ((#) y) (interleavings (x # xs) ys)"

definition fresh_row :: "int \<Rightarrow> counter_row" where
  "fresh_row v = \<lparr>committed = v, pending = None, lock_holder = None, was_read = Map.empty\<rparr>"

subsection \<open>Document numbers: generateDocumentNumber (lines 33-54) and POST /purchase-orders\<close>

text \<open>
  A JavaScript string is a sequence of UTF-16 code units, and \<^verbatim>\<open>length\<close> counts them.
  \<open>ascii\<close> reads a string of ASCII characters as such a sequence.
\<close>

type_synonym js_string = "nat list"

definition ascii :: "string \<Rightarrow> js_string" where
  "ascii s = map of_char s"

text \<open>
  The columns prefix, suffix and number_format are text and taken to be NOT NULL;
  next_number is an integer below \<open>2^53\<close>. The document type of a row is compared with the
  type asked for by equality of the two names: the handlers ask for names in one spelling,
  and the collation of the column is not among the sources.
\<close>

record doc_number_config =
  dn_document_type :: string
  dn_prefix :: js_string
  dn_suffix :: js_string
  dn_next_number :: int
  dn_number_format :: js_string
  dn_is_active :: bool

text \<open>
  \<^verbatim>\<open>Number.prototype.toString\<close> on an integer: the decimal digits (U+0030 is 48), after a
  minus sign (U+002D is 45) for a negative one. \<^verbatim>\<open>String.prototype.padStart\<close> with a fill
  string of one code unit.
\<close>

fun digits :: "nat \<Rightarrow> js_string" where
  "digits n = (if n < 10 then [48 + n] else digits (n div 10) @ [48 + n mod 10])"

declare digits.simps [simp del]

definition toString :: "int \<Rightarrow> js_string" where
  "toString i = (if i < 0 then 45 # digits (nat (- i)) else digits (nat i))"

definition padStart :: "js_string \<Rightarrow> nat \<Rightarrow> nat \<Rightarrow> js_string" where
  "padStart s targetLength c = replicate (targetLength - length s) c @ s"

definition format_number :: "doc_number_config \<Rightarrow> js_string" where
  "format_number config =
     (let formattedNumber = padStart (toString (dn_next_number config))
                              (length (dn_number_format config)) 48
      in dn_prefix config @ formattedNumber @ dn_suffix config)"

text \<open>\<^verbatim>\<open>UPDATE po_document_numbers SET next_number = next_number + 1 WHERE document_type = ?\<close>.\<close>

definition advance_next_number :: "string \<Rightarrow> doc_number_config list \<Rightarrow> doc_number_config list" where
  "advance_next_number documentType configs =
     map (\<lambda>c. if dn_document_type c = documentType
               then c\<lparr>dn_next_number := dn_next_number c + 1\<rparr> else c) configs"

definition active_configs :: "string \<Rightarrow> doc_number_config list \<Rightarrow> doc_number_config list" where
  "active_configs documentType configs =
     filter (\<lambda>c. dn_document_type c = documentType \<and> dn_is_active c) configs"

definition generateDocumentNumber ::
  "string \<Rightarrow> doc_number_config list \<Rightarrow> proc_error + js_string \<times> doc_number_config list" where
  "generateDocumentNumber documentType configs =
     (case active_configs documentType configs of
        [] \<Rightarrow> Inl (ConfigNotFound documentType)
      | config # _ \<Rightarrow> Inr (format_number config, advance_next_number documentType configs))"

text \<open>
  \<^verbatim>\<open>String.prototype.trim\<close> removes from both ends the code units that are WhiteSpace or
  LineTerminator in ECMAScript: tab, line feed, vertical tab, form feed, carriage return,
  space, U+00A0 (no-break space), U+1680, U+2000 to U+200A, U+2028, U+2029, U+202F, U+205F,
  U+3000 and U+FEFF.
\<close>

definition js_white_space :: "nat \<Rightarrow> bool" where
  "js_white_space c =
     (c \<in> set [0x09, 0x0A, 0x0B, 0x0C, 0x0D, 0x20, 0xA0, 0x1680,
                0x2000, 0x2001, 0x2002, 0x2003, 0x2004, 0x2005, 0x2006, 0x2007, 0x2008,
                0x2009, 0x200A, 0x2028, 0x2029, 0x202F, 0x205F, 0x3000, 0xFEFF])"

definition js_trim :: "js_string \<Rightarrow> js_string" where
  "js_trim s = rev (dropWhile js_white_space (rev (dropWhile js_white_space s)))"

text \<open>
  POST /purchase-orders, the number of the new order: the choice at lines 1592-1611
  (\<^verbatim>\<open>po_number && po_number.trim() !== ''\<close>), the check of the lines at 1614, and the advance
  of the sequence at 1689-1698, which runs only when the number was generated. The field
  \<open>po_number\<close> of the request is a JSON string, or absent (\<open>None\<close>). A
  \<^verbatim>\<open>throw\<close> rolls the transaction back; the other throws between the choice and the
  advance (no user id, an INSERT of the header that the database rejects) do the same and
  are left out.
\<close>

definition po_number_supplied :: "js_string option \<Rightarrow> bool" where
  "po_number_supplied po_number =
     (case po_number of None \<Rightarrow> False | Some s \<Rightarrow> s \<noteq> [] \<and> js_trim s \<noteq> [])"

definition create_po_number ::
  "js_string option \<Rightarrow> nat \<Rightarrow> doc_number_config list
     \<Rightarrow> proc_error + js_string \<times> doc_number_config list" where
  "create_po_number po_number n_lines configs =
     (case (if po_number_supplied po_number then Inr (js_trim (the po_number))
            else (case active_configs ''PURCHASE_ORDER'' configs of
                    [] \<Rightarrow> Inl (ConfigNotFound ''PURCHASE_ORDER'')
                  | config # _ \<Rightarrow> Inr (format_number config))) of
        Inl e \<Rightarrow> Inl e
      | Inr poNumber \<Rightarrow>
          if n_lines = 0 then Inl NoLineItems
          else Inr (poNumber,
                    if \<not> po_number_supplied po_number
                    then advance_next_number ''PURCHASE_ORDER'' configs else configs))"

subsection \<open>PATCH /purchase-orders/:id/status (lines 2017-2101)\<close>

record po_header =
  ph_status :: string
  ph_approval_status :: string
  ph_approved_by :: "int option"
  ph_approved_at :: "nat option"

record status_req =
  sr_status :: "string option"
  sr_approval_status :: "string option"

text \<open>
  The names bound at the top level of procurement.js: its three import declarations and
  its \<^verbatim>\<open>const\<close> declarations. The handler evaluates \<^verbatim>\<open>mysql.createConnection(dbConfig)\<close>;
  evaluating a name that is not bound throws a ReferenceError, inside the handler's
  \<^verbatim>\<open>try\<close>.
\<close>

definition procurement_scope :: "string list" where
  "procurement_scope =
     [''express'', ''pool'', ''authenticateToken'', ''requireRole'', ''router'',
      ''getNextSequenceValue'', ''generateDocumentNumber'', ''logAuditTrail'', ''requireAdmin'',
      ''updateInventoryFromGRN'', ''updatePOStatusFromReceipts'']"

text \<open>
  \<^verbatim>\<open>String(x).toUpperCase().trim()\<close> on the status fields, which are text of 8-bit
  characters here: the names they are compared with are ASCII. Of the white space that
  \<^verbatim>\<open>trim\<close> removes, the six ASCII characters and U+00A0 are 8-bit characters; the
  letters put in upper case are the ASCII ones.
\<close>

definition is_space :: "char \<Rightarrow> bool" where
  "is_space c = (c \<in> set [CHR 0x09, CHR 0x0A, CHR 0x0B, CHR 0x0C, CHR 0x0D, CHR '' '', CHR 0xA0])"

definition trim :: "string \<Rightarrow> string" where
  "trim s = rev (dropWhile is_space (rev (dropWhile is_space s)))"

definition upper_char :: "char \<Rightarrow> char" where
  "upper_char c =
     (case map_of (zip ''abcdefghijklmnopqrstuvwxyz'' ''ABCDEFGHIJKLMNOPQRSTUVWXYZ'') c of
        None \<Rightarrow> c
      | Some u \<Rightarrow> u)"

definition normalize :: "string \<Rightarrow> string" where
  "normalize s = trim (map upper_char s)"

definition validStatuses :: "string list" where
  "validStatuses = [''DRAFT'', ''APPROVED'', ''RELEASED'', ''RECEIVED'', ''CLOSED'', ''CANCELLED'']"

definition validApprovalStatuses :: "string list" where
  "validApprovalStatuses = [''PENDING'', ''APPROVED'', ''REJECTED'']"

definition provided :: "string option \<Rightarrow> bool" where
  "provided x = (case x of None \<Rightarrow> False | Some s \<Rightarrow> s \<noteq> [])"

text \<open>
  The part of the handler after the connection is made (lines 2030-2089). \<open>user\<close> is
  \<^verbatim>\<open>req.user?.id || null\<close>, \<open>now\<close> the value of \<^verbatim>\<open>NOW()\<close>.
\<close>

definition patch_with_connection ::
  "nat \<Rightarrow> int option \<Rightarrow> int \<Rightarrow> status_req \<Rightarrow> (int \<rightharpoonup> po_header) \<Rightarrow> response \<times> (int \<rightharpoonup> po_header)" where
  "patch_with_connection now user hid rq headers =
     (case headers hid of
        None \<Rightarrow> (NotFound ''Purchase order not found'', headers)
      | Some existing \<Rightarrow>
         if provided (sr_status rq) \<and> normalize (the (sr_status rq)) \<notin> set validStatuses
         then (BadRequest ''Invalid status value'', headers)
         else if provided (sr_approval_status rq)
                 \<and> normalize (the (sr_approval_status rq)) \<notin> set validApprovalStatuses
         then (BadRequest ''Invalid approval_status value'', headers)
         else
          (let h1 = (if provided (sr_status rq)
                     then existing\<lparr>ph_status := normalize (the (sr_status rq))\<rparr> else existing);
               h2 = (if provided (sr_approval_status rq)
                     then (let normalizedApproval = normalize (the (sr_approval_status rq))
                           in if normalizedApproval = ''APPROVED''
                              then h1\<lparr>ph_approval_status := normalizedApproval,
                                      ph_approved_by := (if truthy_int user then user else None),
                                      ph_approved_at := Some now\<rparr>
                              else h1\<lparr>ph_approval_status := normalizedApproval,
                                      ph_approved_by := None, ph_approved_at := None\<rparr>)
                     else h1)
           in (Done, headers(hid \<mapsto> h2))))"

text \<open>
  The handler in a module with the top-level names \<open>scope\<close>. The ReferenceError is caught
  at line 2090 with \<open>connection\<close> still undefined, and answered with 500.
\<close>

definition patch_po_status ::
  "string list \<Rightarrow> nat \<Rightarrow> int option \<Rightarrow> int \<Rightarrow> status_req \<Rightarrow> (int \<rightharpoonup> po_header)
     \<Rightarrow> response \<times> (int \<rightharpoonup> po_header)" where
  "patch_po_status scope now user hid rq headers =
     (if \<not> provided (sr_status rq) \<and> \<not> provided (sr_approval_status rq)
      then (BadRequest ''No status fields provided'', headers)
      else if ''mysql'' \<notin> set scope \<or> ''dbConfig'' \<notin> set scope
      then (ServerError ''Failed to update purchase order status'', headers)
      else patch_with_connection now user hid rq headers)"

subsection \<open>The pooled connection of POST /agreements (463-654) and PUT /receipts/:id (2392-2600)\<close>

text \<open>
  What a handler does to the connection it took from the pool. The awaited database calls
  of a handler are numbered in program order; \<open>throws k\<close> says that call \<open>k\<close> rejects. The
  body of the \<^verbatim>\<open>try\<close> ends with a response or with an exception; the \<^verbatim>\<open>catch\<close> is applied
  to the exception.
\<close>

record connection =
  held :: bool
  in_transaction :: bool

datatype exn = DatabaseError nat | TypeError

definition getConnection :: connection where
  "getConnection = \<lparr>held = True, in_transaction = False\<rparr>"

definition release :: "connection \<Rightarrow> connection" where
  "release c = c\<lparr>held := False\<rparr>"

definition rollback :: "connection \<Rightarrow> connection" where
  "rollback c = c\<lparr>in_transaction := False\<rparr>"

definition beginTransaction :: "connection \<Rightarrow> connection" where
  "beginTransaction c = c\<lparr>in_transaction := True\<rparr>"

text \<open>
  POST /agreements. Calls: 0 beginTransaction, 1 the SELECT of the supplier, 2 the INSERT
  of the header, 3 + i the INSERT of line i. The \<^verbatim>\<open>catch\<close> (lines 644-653) answers 500 and
  does nothing to the connection.
\<close>

definition post_agreements_try ::
  "(nat \<Rightarrow> bool) \<Rightarrow> bool \<Rightarrow> bool \<Rightarrow> bool \<Rightarrow> nat \<Rightarrow> connection \<Rightarrow> (exn + response) \<times> connection" where
  "post_agreements_try throws has_supplier_id has_agreement_number supplier_found n_lines c0 =
     (if throws 0 then (Inl (DatabaseError 0), c0)
      else
       (let c1 = beginTransaction c0
        in if \<not> has_supplier_id then (Inr (BadRequest ''supplier_id is required''), release (rollback c1))
           else if \<not> has_agreement_number
           then (Inr (BadRequest ''agreement_number is required''), release (rollback c1))
           else if throws 1 then (Inl (DatabaseError 1), c1)
           else if \<not> supplier_found then (Inr (BadRequest ''Supplier not found''), release (rollback c1))
           else if throws 2 then (Inl (DatabaseError 2), c1)
           else (case filter (\<lambda>i. throws (3 + i)) [0..<n_lines] of
                   i # _ \<Rightarrow> (Inl (DatabaseError (3 + i)), c1)
                 | [] \<Rightarrow> (Inr Created, release c1))))"

definition post_agreements ::
  "(nat \<Rightarrow> bool) \<Rightarrow> bool \<Rightarrow> bool \<Rightarrow> bool \<Rightarrow> nat \<Rightarrow> response \<times> connection" where
  "post_agreements throws has_supplier_id has_agreement_number supplier_found n_lines =
     (case post_agreements_try throws has_supplier_id has_agreement_number supplier_found n_lines
             getConnection of
        (Inl e, c) \<Rightarrow> (ServerError ''Failed to create agreement'', c)
      | (Inr r, c) \<Rightarrow> (r, c))"

text \<open>
  PUT /receipts/:id. Calls: 0 beginTransaction, 1 the SELECT of the receipt, 2 the UPDATE
  of the receipt, 3 the SELECT of the old lines and their reversal, 4 the DELETE of the
  lines, 5 the sequence reads and the INSERT of the new lines (when there are any), 6 the
  recomputation of amount_received (when the receipt has a header_id). \<open>lines\<close> is the
  request's array, \<open>None\<close> when the body has none: \<^verbatim>\<open>lines.reduce\<close> then throws a TypeError.
  The status rollup, the inventory update and the audit trail catch their own errors. The
  \<^verbatim>\<open>catch\<close> (lines 2596-2599) answers 500 and does nothing to the connection.
\<close>

definition put_goods_receipt_try ::
  "(nat \<Rightarrow> bool) \<Rightarrow> bool \<Rightarrow> bool \<Rightarrow> 'a list option \<Rightarrow> connection \<Rightarrow> (exn + response) \<times> connection" where
  "put_goods_receipt_try throws receipt_found has_header lines c0 =
     (if throws 0 then (Inl (DatabaseError 0), c0)
      else
       (let c1 = beginTransaction c0
        in if throws 1 then (Inl (DatabaseError 1), c1)
           else if \<not> receipt_found then (Inr (NotFound ''Goods receipt not found''), release (rollback c1))
           else (case lines of
                   None \<Rightarrow> (Inl TypeError, c1)
                 | Some ls \<Rightarrow>
                    (case filter throws ([2, 3, 4] @ (if ls \<noteq> [] then [5] else [])
                                           @ (if has_header then [6] else [])) of
                       k # _ \<Rightarrow> (Inl (DatabaseError k), c1)
                     | [] \<Rightarrow> (Inr Done, release c1)))))"

definition put_goods_receipt ::
  "(nat \<Rightarrow> bool) \<Rightarrow> bool \<Rightarrow> bool \<Rightarrow> 'a list option \<Rightarrow> response \<times> connection" where
  "put_goods_receipt throws receipt_found has_header lines =
     (case put_goods_receipt_try throws receipt_found has_header lines getConnection of
        (Inl e, c) \<Rightarrow> (ServerError ''Failed to update goods receipt'', c)
      | (Inr r, c) \<Rightarrow> (r, c))"

subsection \<open>A purchase order and an inventory item for concrete runs\<close>

text \<open>
  A purchase order with one line of 10 units, a goods-receipt line against it, and an item
  stocked at 1.5 boxes of 10 packets with a receipt line accepting 3 units of it.
\<close>

definition ex_po :: po_db where
  "ex_po = \<lparr>po_headers = [1 \<mapsto> PO_RELEASED],
            po_lines = [\<lparr>pl_line_id = 1, pl_header_id = 1, pl_quantity = 10\<rparr>],
            po_receipt_lines = []\<rparr>"

definition ex_grn :: "int \<Rightarrow> real \<Rightarrow> po_receipt_line" where
  "ex_grn rid q = \<lparr>prl_receipt_id = rid, prl_line_id = Some 1, prl_quantity_received = q,
                  prl_quantity_accepted = q\<rparr>"

definition ex_inventory :: "string \<rightharpoonup> inventory_detail" where
  "ex_inventory = [''A'' \<mapsto> \<lparr>box_quantity = 3 / 2, packet_quantity = 10\<rparr>]"

definition ex_grn_line :: grn_line where
  "ex_grn_line = \<lparr>gl_item_code = ''A'', gl_quantity_accepted = 3, gl_po_packet_quantity = 0\<rparr>"

definition ex_config :: doc_number_config where
  "ex_config = \<lparr>dn_document_type = ''PURCHASE_ORDER'', dn_prefix = ascii ''PO-'',
                dn_suffix = ascii ''/A'', dn_next_number = 42, dn_number_format = ascii ''000000'',
                dn_is_active = True\<rparr>"

definition ex_headers :: "int \<rightharpoonup> po_header" where
  "ex_headers = [1 \<mapsto> \<lparr>ph_status = ''DRAFT'', ph_approval_status = ''PENDING'',
                        ph_approved_by = None, ph_approved_at = None\<rparr>]"

text \<open>The row of a sequence in the table that its name selects.\<close>

definition seq_lookup :: "string \<Rightarrow> seq_tables \<Rightarrow> int option" where
  "seq_lookup name t = (if take 3 name = ''AP_'' then ap_sequences t name else ar_sequences t name)"

section \<open>Properties\<close>

subsection \<open>Settlement: the loops over the application lines\<close>

lemma applied_to_Cons:
  "applied_to amt i (app # apps) =
     (if ar_invoice_id app = Some i then the (amt app) else 0) + applied_to amt i apps"
  by (simp add: applied_to_def)

lemma applied_to_Nil: "applied_to amt i [] = 0"
  by (simp add: applied_to_def)

lemma update_invoice_sql_paid: "inv_amount_paid (update_invoice_sql ord a iv) = inv_amount_paid iv + a"
  by (simp add: update_invoice_sql_def Let_def)

lemma update_invoice_sql_total: "inv_total_amount (update_invoice_sql ord a iv) = inv_total_amount iv"
  by (simp add: update_invoice_sql_def Let_def)

lemma create_payment_app_Inr:
  assumes "create_payment_app ord pst pid dt app (d, t) = Inr (d', t')"
  shows "\<exists>i a iv. ar_invoice_id app = Some i \<and> app_amount app = Some a \<and> 0 < a \<and> 0 < i
            \<and> invoices d i = Some iv \<and> t' = t + a
            \<and> payments d' = payments d
            \<and> invoices d' = (if pst = PAID then (invoices d)(i \<mapsto> update_invoice_sql ord a iv) else invoices d)
            \<and> applications d' = applications d @
                 [\<lparr>a_application_id = application_seq d, a_payment_id = pid, a_invoice_id = i,
                   a_applied_amount = a, a_unapplied_amount = max 0 (inv_total_amount iv - inv_amount_paid iv - a),
                   a_date = the (or_str (ar_date app) (Some dt)), a_status = ACTIVE\<rparr>]"
  using assms
  by (auto simp: create_payment_app_def app_amount_def Let_def getNextPaymentApplicationId_def
        update_invoice_row_def split: option.splits if_splits)


lemma create_payment_apps_payments:
  "create_payment_apps ord pst pid dt apps (d, t) = Inr (d', t') \<Longrightarrow>
     payments d' = payments d \<and> t' = t + sum_list (map (\<lambda>app. the (app_amount app)) apps)"
proof (induction apps arbitrary: d t)
  case Nil
  then show ?case by simp
next
  case (Cons app apps)
  from Cons.prems obtain d1 t1 where
    step: "create_payment_app ord pst pid dt app (d, t) = Inr (d1, t1)" and
    rest: "create_payment_apps ord pst pid dt apps (d1, t1) = Inr (d', t')"
    by (auto split: sum.splits)
  from create_payment_app_Inr[OF step] Cons.IH[OF rest] show ?case by auto
qed

lemma create_payment_apps_paid:
  "create_payment_apps ord PAID pid dt apps (d, t) = Inr (d', t') \<Longrightarrow> invoices d i = Some iv \<Longrightarrow>
     \<exists>iv'. invoices d' i = Some iv' \<and> inv_total_amount iv' = inv_total_amount iv
         \<and> inv_amount_paid iv' = inv_amount_paid iv + applied_to app_amount i apps"
proof (induction apps arbitrary: d t iv)
  case Nil
  then show ?case by (simp add: applied_to_Nil)
next
  case (Cons app apps)
  from Cons.prems obtain d1 t1 where
    step: "create_payment_app ord PAID pid dt app (d, t) = Inr (d1, t1)" and
    rest: "create_payment_apps ord PAID pid dt apps (d1, t1) = Inr (d', t')"
    by (auto split: sum.splits)
  from create_payment_app_Inr[OF step] obtain j a jv where
    j: "ar_invoice_id app = Some j" "app_amount app = Some a" "invoices d j = Some jv"
       "invoices d1 = (invoices d)(j \<mapsto> update_invoice_sql ord a jv)"
    by auto
  show ?case
  proof (cases "j = i")
    case True
    with j Cons.prems(2) have jv: "jv = iv" by simp
    have "invoices d1 i = Some (update_invoice_sql ord a iv)" using j True jv by simp
    from Cons.IH[OF rest this] show ?thesis
      using j True by (auto simp: applied_to_Cons update_invoice_sql_paid update_invoice_sql_total)
  next
    case False
    have "invoices d1 i = Some iv" using j False Cons.prems(2) by simp
    from Cons.IH[OF rest this] show ?thesis
      using j False by (auto simp: applied_to_Cons)
  qed
qed


lemma set_amount_applied_invoices: "invoices (set_amount_applied pid t d) = invoices d"
  by (simp add: set_amount_applied_def split: option.splits)

lemma set_amount_applied_status:
  "map_option p_status (payments (set_amount_applied pid t d) k) = map_option p_status (payments d k)"
  by (simp add: set_amount_applied_def split: option.splits)

lemma insert_payment_simps:
  "invoices (insert_payment pid p d) = invoices d"
  "payments (insert_payment pid p d) pid = Some p"
  "applications (insert_payment pid p d) = applications d"
  by (simp_all add: insert_payment_def)

lemma create_payment_txn_Inr:
  assumes "create_payment_txn ord gen rq d0 = Inr d"
  shows "\<exists>p d1. p_status p = paymentStatus (rq_status rq) \<and> invoices d1 = invoices d0
           \<and> applications d1 = applications d0
           \<and> (if rq_applications rq \<noteq> []
               then \<exists>d3 t. create_payment_apps ord (paymentStatus (rq_status rq)) (id_seq d0) (the (rq_date rq))
                      (rq_applications rq) (insert_payment (id_seq d0) p d1, 0) = Inr (d3, t)
                      \<and> d = set_amount_applied (id_seq d0) t d3
               else d = insert_payment (id_seq d0) p d1)"
proof -
  let ?p = "\<lparr>p_number = (if truthy_str (rq_number rq) then the (rq_number rq) else gen (id_seq d0)),
             p_party_id = the (rq_party_id rq), p_date = the (rq_date rq),
             p_amount = the (or_num (rq_payment_amount rq) (rq_total_amount rq)),
             p_amount_applied = 0, p_status = paymentStatus (rq_status rq)\<rparr>"
  let ?d1 = "d0\<lparr>id_seq := id_seq d0 + 1\<rparr>"
  from assms have
    "if rq_applications rq \<noteq> []
     then \<exists>d3 t. create_payment_apps ord (paymentStatus (rq_status rq)) (id_seq d0) (the (rq_date rq))
                   (rq_applications rq) (insert_payment (id_seq d0) ?p ?d1, 0) = Inr (d3, t)
                   \<and> d = set_amount_applied (id_seq d0) t d3
     else d = insert_payment (id_seq d0) ?p ?d1"
    by (auto simp: create_payment_txn_def Let_def getNextPaymentId_def
          split: if_splits sum.splits prod.splits)
  moreover have "p_status ?p = paymentStatus (rq_status rq)" by simp
  moreover have "invoices ?d1 = invoices d0" "applications ?d1 = applications d0" by simp_all
  ultimately show ?thesis by blast
qed

lemma create_payment_Created:
  "create_payment ord gen rq d0 = (Created, d) \<Longrightarrow> create_payment_txn ord gen rq d0 = Inr d"
  by (auto simp: create_payment_def Let_def split: if_splits sum.splits)

lemma create_payment_status:
  assumes "create_payment ord gen rq d0 = (Created, d)"
  shows "map_option p_status (payments d (id_seq d0)) = Some (paymentStatus (rq_status rq))"
proof -
  from create_payment_txn_Inr[OF create_payment_Created[OF assms]] obtain p d1 where
    p: "p_status p = paymentStatus (rq_status rq)" and
    h: "if rq_applications rq \<noteq> []
        then \<exists>d3 t. create_payment_apps ord (paymentStatus (rq_status rq)) (id_seq d0) (the (rq_date rq))
               (rq_applications rq) (insert_payment (id_seq d0) p d1, 0) = Inr (d3, t)
               \<and> d = set_amount_applied (id_seq d0) t d3
        else d = insert_payment (id_seq d0) p d1"
    by blast
  show ?thesis
  proof (cases "rq_applications rq = []")
    case True
    with h p show ?thesis by (simp add: insert_payment_simps)
  next
    case False
    with h obtain d3 t where
      l: "create_payment_apps ord (paymentStatus (rq_status rq)) (id_seq d0) (the (rq_date rq))
               (rq_applications rq) (insert_payment (id_seq d0) p d1, 0) = Inr (d3, t)" and
      d: "d = set_amount_applied (id_seq d0) t d3"
      by auto
    from create_payment_apps_payments[OF l]
    have "payments d3 = payments (insert_payment (id_seq d0) p d1)" by simp
    with p d show ?thesis by (simp add: set_amount_applied_status insert_payment_simps)
  qed
qed

lemma create_payment_commits:
  assumes "create_payment ord gen rq d0 = (Created, d)" and "rq_status rq \<noteq> Some ''DRAFT''"
    and "invoices d0 i = Some iv"
  shows "\<exists>iv'. invoices d i = Some iv' \<and> inv_total_amount iv' = inv_total_amount iv
         \<and> inv_amount_paid iv' = inv_amount_paid iv + applied_to app_amount i (rq_applications rq)"
proof -
  have st: "paymentStatus (rq_status rq) = PAID" using assms(2) by (simp add: paymentStatus_def)
  from create_payment_txn_Inr[OF create_payment_Created[OF assms(1)]] obtain p d1 where
    i: "invoices d1 = invoices d0" and
    h: "if rq_applications rq \<noteq> []
        then \<exists>d3 t. create_payment_apps ord (paymentStatus (rq_status rq)) (id_seq d0) (the (rq_date rq))
               (rq_applications rq) (insert_payment (id_seq d0) p d1, 0) = Inr (d3, t)
               \<and> d = set_amount_applied (id_seq d0) t d3
        else d = insert_payment (id_seq d0) p d1"
    by blast
  show ?thesis
  proof (cases "rq_applications rq = []")
    case True
    with h i assms(3) show ?thesis by (simp add: applied_to_Nil insert_payment_simps)
  next
    case False
    with h st obtain d3 t where
      l: "create_payment_apps ord PAID (id_seq d0) (the (rq_date rq))
               (rq_applications rq) (insert_payment (id_seq d0) p d1, 0) = Inr (d3, t)" and
      d: "d = set_amount_applied (id_seq d0) t d3"
      by auto
    have "invoices (insert_payment (id_seq d0) p d1) i = Some iv"
      using i assms(3) by (simp add: insert_payment_simps)
    from create_payment_apps_paid[OF l this] d show ?thesis
      by (simp add: set_amount_applied_invoices)
  qed
qed

lemma update_invoice_row_other:
  "payments (update_invoice_row i f d) = payments d"
  "applications (update_invoice_row i f d) = applications d"
  by (simp_all add: update_invoice_row_def split: option.splits)

lemma update_invoice_row_invoices:
  "invoices d i = Some iv \<Longrightarrow> invoices (update_invoice_row i f d) = (invoices d)(i \<mapsto> f iv)"
  by (simp add: update_invoice_row_def)

lemma create_receipt_app_Inr:
  assumes "create_receipt_app ord rst rid dt app (d, t) = Inr (d', t')"
  shows "\<exists>i a iv. ar_invoice_id app = Some i \<and> receipt_app_amount app = Some a \<and> 0 < a
            \<and> a \<le> inv_total_amount iv - inv_amount_paid iv
            \<and> invoices d i = Some iv \<and> t' = t + a
            \<and> payments d' = payments d
            \<and> invoices d' = (if rst = PAID then (invoices d)(i \<mapsto> receipt_invoice_update ord a iv) else invoices d)
            \<and> applications d' = applications d @
                 [\<lparr>a_application_id = application_seq d + increment_by d, a_payment_id = rid, a_invoice_id = i,
                   a_applied_amount = a, a_unapplied_amount = max 0 (inv_total_amount iv - inv_amount_paid iv - a),
                   a_date = the (or_str (ar_date app) (Some dt)), a_status = ACTIVE\<rparr>]"
  using assms
  by (auto simp: create_receipt_app_def receipt_app_amount_def Let_def ar_next_application_id_def
        update_invoice_row_def truthy_int_def split: option.splits if_splits)

lemma create_receipt_apps_payments:
  "create_receipt_apps ord rst rid dt apps (d, t) = Inr (d', t') \<Longrightarrow>
     payments d' = payments d \<and> t' = t + sum_list (map (\<lambda>app. the (receipt_app_amount app)) apps)"
proof (induction apps arbitrary: d t)
  case Nil
  then show ?case by simp
next
  case (Cons app apps)
  from Cons.prems obtain d1 t1 where
    step: "create_receipt_app ord rst rid dt app (d, t) = Inr (d1, t1)" and
    rest: "create_receipt_apps ord rst rid dt apps (d1, t1) = Inr (d', t')"
    by (auto split: sum.splits)
  from create_receipt_app_Inr[OF step] Cons.IH[OF rest] show ?case by auto
qed

lemma create_receipt_txn_Inr:
  assumes "create_receipt_txn ord rq c d0 = Inr d"
  shows "\<exists>p d1. p_status p = receiptStatus (rq_status rq) \<and> invoices d1 = invoices d0
           \<and> applications d1 = applications d0
           \<and> (if rq_applications rq \<noteq> []
               then \<exists>d3 t. create_receipt_apps ord (receiptStatus (rq_status rq))
                      (id_seq d0 + increment_by d0) (the (rq_date rq))
                      (rq_applications rq) (insert_payment (id_seq d0 + increment_by d0) p d1, 0) = Inr (d3, t)
                      \<and> d = set_amount_applied (id_seq d0 + increment_by d0) t d3
               else d = insert_payment (id_seq d0 + increment_by d0) p d1)"
proof -
  let ?rid = "id_seq d0 + increment_by d0"
  let ?p = "\<lparr>p_number = (case rq_number rq of None \<Rightarrow> [] | Some n \<Rightarrow> n),
             p_party_id = c, p_date = the (rq_date rq),
             p_amount = the (or_num (rq_total_amount rq) (rq_payment_amount rq)),
             p_amount_applied = 0, p_status = receiptStatus (rq_status rq)\<rparr>"
  let ?d1 = "d0\<lparr>id_seq := id_seq d0 + increment_by d0\<rparr>"
  from assms have
    "if rq_applications rq \<noteq> []
     then \<exists>d3 t. create_receipt_apps ord (receiptStatus (rq_status rq)) ?rid (the (rq_date rq))
                   (rq_applications rq) (insert_payment ?rid ?p ?d1, 0) = Inr (d3, t)
                   \<and> d = set_amount_applied ?rid t d3
     else d = insert_payment ?rid ?p ?d1"
    by (auto simp: create_receipt_txn_def Let_def ar_next_id_def
          split: if_splits sum.splits prod.splits)
  moreover have "p_status ?p = receiptStatus (rq_status rq)" by simp
  moreover have "invoices ?d1 = invoices d0" "applications ?d1 = applications d0" by simp_all
  ultimately show ?thesis by blast
qed

lemma create_receipt_Created:
  "create_receipt ord rq d0 = (Created, d) \<Longrightarrow> \<exists>c. create_receipt_txn ord rq c d0 = Inr d"
  by (auto simp: create_receipt_def Let_def split: if_splits sum.splits)

lemma create_receipt_status:
  assumes "create_receipt ord rq d0 = (Created, d)"
  shows "map_option p_status (payments d (id_seq d0 + increment_by d0)) = Some (receiptStatus (rq_status rq))"
proof -
  let ?rid = "id_seq d0 + increment_by d0"
  from create_receipt_Created[OF assms] obtain c where "create_receipt_txn ord rq c d0 = Inr d" ..
  from create_receipt_txn_Inr[OF this] obtain p d1 where
    p: "p_status p = receiptStatus (rq_status rq)" and
    h: "if rq_applications rq \<noteq> []
        then \<exists>d3 t. create_receipt_apps ord (receiptStatus (rq_status rq)) ?rid (the (rq_date rq))
               (rq_applications rq) (insert_payment ?rid p d1, 0) = Inr (d3, t)
               \<and> d = set_amount_applied ?rid t d3
        else d = insert_payment ?rid p d1"
    by blast
  show ?thesis
  proof (cases "rq_applications rq = []")
    case True
    with h p show ?thesis by (simp add: insert_payment_simps)
  next
    case False
    with h obtain d3 t where
      l: "create_receipt_apps ord (receiptStatus (rq_status rq)) ?rid (the (rq_date rq))
               (rq_applications rq) (insert_payment ?rid p d1, 0) = Inr (d3, t)" and
      d: "d = set_amount_applied ?rid t d3"
      by auto
    from create_receipt_apps_payments[OF l]
    have "payments d3 = payments (insert_payment ?rid p d1)" by simp
    with p d show ?thesis by (simp add: set_amount_applied_status insert_payment_simps)
  qed
qed

lemmas settle_defs =
  create_payment_def create_payment_txn_def create_payment_app_def getNextPaymentId_def
  getNextPaymentApplicationId_def insert_payment_def set_amount_applied_def update_invoice_row_def
  update_invoice_sql_def paymentStatus_def truthy_num_def truthy_int_def truthy_str_def
  or_num_def or_str_def ex_db_def ex_app_def ex_req_def ex_gen_def Let_def
  create_receipt_def create_receipt_txn_def create_receipt_app_def ar_next_id_def ar_next_application_id_def
  receiptStatus_def receipt_invoice_update_def resolve_customer_def

lemma ex_create_payment_runs:
  "fst (create_payment Simultaneous ex_gen (ex_req (Some ''paid'') [ex_app 40]) ex_db) = Created"
  by (simp add: settle_defs)

lemma ex_create_receipt_runs:
  "fst (create_receipt Simultaneous (ex_req (Some ''paid'') [ex_app 40]) ex_db) = Created"
  by (simp add: settle_defs)

subsection \<open>The status a created payment or receipt is stored with\<close>

text \<open>
  C10. A payment that is created is stored with status DRAFT exactly when the request's
  status is the string 'DRAFT', and PAID for any other value, absent included; with any
  other value the created payment has added its applied amounts to the invoices. A receipt
  that is created is stored with PAID exactly when the request's status is the string 'PAID',
  and DRAFT otherwise.
\<close>

theorem creation_status_default:
  "(create_payment ord gen rq d0 = (Created, d) \<longrightarrow>
      map_option p_status (payments d (id_seq d0))
        = Some (if rq_status rq = Some ''DRAFT'' then DRAFT else PAID))
   \<and> (create_payment ord gen rq d0 = (Created, d) \<and> rq_status rq \<noteq> Some ''DRAFT''
        \<and> invoices d0 i = Some iv \<longrightarrow>
      map_option inv_amount_paid (invoices d i)
        = Some (inv_amount_paid iv + applied_to app_amount i (rq_applications rq)))
   \<and> (create_receipt ord rq d0 = (Created, d') \<longrightarrow>
      map_option p_status (payments d' (id_seq d0 + increment_by d0))
        = Some (if rq_status rq = Some ''PAID'' then PAID else DRAFT))"
proof (intro conjI impI)
  assume "create_payment ord gen rq d0 = (Created, d)"
  from create_payment_status[OF this]
  show "map_option p_status (payments d (id_seq d0))
          = Some (if rq_status rq = Some ''DRAFT'' then DRAFT else PAID)"
    by (simp add: paymentStatus_def)
next
  assume a: "create_payment ord gen rq d0 = (Created, d) \<and> rq_status rq \<noteq> Some ''DRAFT''
              \<and> invoices d0 i = Some iv"
  then have "\<exists>iv'. invoices d i = Some iv' \<and> inv_total_amount iv' = inv_total_amount iv
         \<and> inv_amount_paid iv' = inv_amount_paid iv + applied_to app_amount i (rq_applications rq)"
    using create_payment_commits by blast
  then show "map_option inv_amount_paid (invoices d i)
          = Some (inv_amount_paid iv + applied_to app_amount i (rq_applications rq))"
    by auto
next
  assume "create_receipt ord rq d0 = (Created, d')"
  from create_receipt_status[OF this]
  show "map_option p_status (payments d' (id_seq d0 + increment_by d0))
          = Some (if rq_status rq = Some ''PAID'' then PAID else DRAFT)"
    by (simp add: receiptStatus_def)
qed

theorem creation_status_default_witness:
  "fst (create_payment Simultaneous ex_gen (ex_req (Some ''paid'') [ex_app 40]) ex_db) = Created
   \<and> map_option p_status
        (payments (snd (create_payment Simultaneous ex_gen (ex_req (Some ''paid'') [ex_app 40]) ex_db)) 7)
       = Some PAID
   \<and> map_option inv_amount_paid
        (invoices (snd (create_payment Simultaneous ex_gen (ex_req (Some ''paid'') [ex_app 40]) ex_db)) 1)
       = Some 40
   \<and> fst (create_receipt Simultaneous (ex_req (Some ''paid'') [ex_app 40]) ex_db) = Created
   \<and> map_option p_status
        (payments (snd (create_receipt Simultaneous (ex_req (Some ''paid'') [ex_app 40]) ex_db)) 8)
       = Some DRAFT"
proof -
  let ?rq = "ex_req (Some ''paid'') [ex_app 40]"
  let ?iv = "\<lparr>inv_total_amount = 100, inv_amount_paid = 0, inv_status = INV_OPEN\<rparr>"
  let ?d = "snd (create_payment Simultaneous ex_gen ?rq ex_db)"
  let ?d' = "snd (create_receipt Simultaneous ?rq ex_db)"
  have p: "create_payment Simultaneous ex_gen ?rq ex_db = (Created, ?d)"
    using ex_create_payment_runs by (simp add: prod_eq_iff)
  have r: "create_receipt Simultaneous ?rq ex_db = (Created, ?d')"
    using ex_create_receipt_runs by (simp add: prod_eq_iff)
  have s: "rq_status ?rq \<noteq> Some ''DRAFT''" "rq_status ?rq \<noteq> Some ''PAID''"
    by (simp_all add: ex_req_def)
  have i: "invoices ex_db 1 = Some ?iv" by (simp add: ex_db_def)
  have n: "id_seq ex_db = 7" "id_seq ex_db + increment_by ex_db = 8" by (simp_all add: ex_db_def)
  have t: "inv_amount_paid ?iv + applied_to app_amount 1 (rq_applications ?rq) = 40"
    by (simp add: applied_to_def app_amount_def ex_req_def ex_app_def)
  from creation_status_default[of Simultaneous ex_gen ?rq ex_db ?d 1 ?iv ?d'] p r s i
  have "map_option p_status (payments ?d (id_seq ex_db)) = Some PAID"
    and "map_option inv_amount_paid (invoices ?d 1)
           = Some (inv_amount_paid ?iv + applied_to app_amount 1 (rq_applications ?rq))"
    and "map_option p_status (payments ?d' (id_seq ex_db + increment_by ex_db)) = Some DRAFT"
    by simp_all
  with n t ex_create_payment_runs ex_create_receipt_runs show ?thesis by simp
qed

subsection \<open>The invoice update of a committing payment or receipt\<close>

lemma update_invoice_sql_status:
  "inv_status (update_invoice_sql ord a iv) \<in> {INV_PAID, INV_OPEN}"
  by (simp add: update_invoice_sql_def Let_def)

lemma receipt_invoice_update_status:
  "inv_status (receipt_invoice_update ord a iv) \<in> {INV_PAID, INV_OPEN}"
  by (cases ord) (simp_all add: receipt_invoice_update_def update_invoice_sql_def Let_def)

text \<open>
  Neither update reads the status it replaces: whatever the invoice's status was, it is
  PAID or OPEN afterwards.
\<close>

lemma committing_update_forgets_status:
  "update_invoice_sql ord a (iv\<lparr>inv_status := st\<rparr>) = update_invoice_sql ord a iv"
  "receipt_invoice_update ord a (iv\<lparr>inv_status := st\<rparr>) = receipt_invoice_update ord a iv"
  by (cases ord; simp add: receipt_invoice_update_def update_invoice_sql_def Let_def)+

text \<open>
  Under left-to-right evaluation the CASE of the UPDATE reads the new amount_paid and adds
  the applied amount once more: a payment of 50.00 against 100.00 due marks the invoice
  PAID. receipts.js repairs the status afterwards from its own computation; apPayments.js
  keeps what the UPDATE wrote.
\<close>

lemma update_invoice_sql_left_to_right:
  "inv_status (update_invoice_sql LeftToRight a iv)
     = (if inv_total_amount iv - (inv_amount_paid iv + a + a) \<le> 0.01 then INV_PAID else INV_OPEN)"
  by (simp add: update_invoice_sql_def Let_def)

lemma ex_left_to_right_marks_paid:
  "invoices (snd (create_payment LeftToRight ex_gen (ex_req None [ex_app 50]) ex_db)) 1
     = Some \<lparr>inv_total_amount = 100, inv_amount_paid = 50, inv_status = INV_PAID\<rparr>"
  by (simp add: settle_defs)

text \<open>
  C1. The claim: the invoice update of a committing payment or receipt never changes a
  status that is DRAFT, CANCELLED or VOID. The UPDATE of both routes assigns the status
  without reading it: an invoice of 100.00 in status CANCELLED to which a PAID receipt, or a
  payment, applies 40.00 ends with 40.00 paid and status OPEN, under either evaluation order
  of the engine.
\<close>

theorem terminal_status_overwritten:
  "map_option inv_status (invoices ex_db_cancelled 1) = Some INV_CANCELLED
   \<and> fst (create_receipt ord (ex_req (Some ''PAID'') [ex_app 40]) ex_db_cancelled) = Created
   \<and> invoices (snd (create_receipt ord (ex_req (Some ''PAID'') [ex_app 40]) ex_db_cancelled)) 1
       = Some \<lparr>inv_total_amount = 100, inv_amount_paid = 40, inv_status = INV_OPEN\<rparr>
   \<and> fst (create_payment ord ex_gen (ex_req None [ex_app 40]) ex_db_cancelled) = Created
   \<and> invoices (snd (create_payment ord ex_gen (ex_req None [ex_app 40]) ex_db_cancelled)) 1
       = Some \<lparr>inv_total_amount = 100, inv_amount_paid = 40, inv_status = INV_OPEN\<rparr>"
  by (cases ord) (simp_all add: settle_defs ex_db_cancelled_def)

theorem terminal_status_overwritten_witness:
  "map_option inv_status
     (invoices (snd (create_receipt LeftToRight (ex_req (Some ''PAID'') [ex_app 40]) ex_db_cancelled)) 1)
     = Some INV_OPEN
   \<and> map_option inv_status
     (invoices (snd (create_payment LeftToRight ex_gen (ex_req None [ex_app 40]) ex_db_cancelled)) 1)
     = Some INV_OPEN"
  using terminal_status_overwritten[of LeftToRight] by simp

subsection \<open>DRAFT holds the balances, promotion commits them\<close>







































text \<open>
  POST /:id/applications of apPayments.js adds one line to a stored payment; it is not one
  of the operations of the theorem below, which take the list of lines of the payment.
  It does not read the status of the payment: a line of 10.00 added to the DRAFT payment 7
  is charged to the invoice.
\<close>

lemma ex_add_application_to_draft:
  "map_option p_status (payments ex_db_draft 7) = Some DRAFT"
  "fst (add_application ord ''2025-02-01'' 7 1 (Some 10) None ex_db_draft) = Created"
  "invoices (snd (add_application ord ''2025-02-01'' 7 1 (Some 10) None ex_db_draft)) 1
     = Some \<lparr>inv_total_amount = 100, inv_amount_paid = 10, inv_status = INV_OPEN\<rparr>"
  by (cases ord; simp add: settle_defs add_application_def update_payment_row_def ex_db_draft_def)+

text \<open>
  A receipt with status 'PAID' whose second line has no invoice id is answered with 400 and
  nothing is committed; the connection goes back to the pool with a transaction open in
  which the receipt is stored and the first line is charged to the invoice.
\<close>

lemma ex_receipt_left_open:
  "create_receipt ord (ex_req (Some ''PAID'') [ex_app 40, (ex_app 10)\<lparr>ar_invoice_id := None\<rparr>]) ex_db
     = (BadRequest ''Invalid application'', ex_db)"
  "map_option invoices
     (create_receipt_left_open ord
        (ex_req (Some ''PAID'') [ex_app 40, (ex_app 10)\<lparr>ar_invoice_id := None\<rparr>]) ex_db)
     = Some [1 \<mapsto> \<lparr>inv_total_amount = 100, inv_amount_paid = 40, inv_status = INV_OPEN\<rparr>]"
  "create_receipt_left_open ord (ex_req (Some ''PAID'') [ex_app 40]) ex_db = None"
  by (cases ord; simp add: settle_defs create_receipt_left_open_def)+



subsection \<open>What the validation of an application line lets through\<close>

text \<open>
  C3. The claim: a line whose amount exceeds the invoice's amount due, or the payment's
  remaining unapplied amount, or is not positive, is rejected. POST / of apPayments.js checks
  only that the amount is positive: a payment of 50.00 with a line of 150.00 against an
  invoice with 100.00 due is created, the invoice ends with 150.00 paid and the payment with
  150.00 applied. POST /:id/applications checks only the two upper bounds: a line of -5.00 is
  accepted and takes 5.00 off the invoice's amount_paid.
\<close>

theorem over_application_accepted:
  "fst (create_payment Simultaneous ex_gen (ex_req None [ex_app 150]) ex_db) = Created
   \<and> invoices (snd (create_payment Simultaneous ex_gen (ex_req None [ex_app 150]) ex_db)) 1
       = Some \<lparr>inv_total_amount = 100, inv_amount_paid = 150, inv_status = INV_PAID\<rparr>
   \<and> payments (snd (create_payment Simultaneous ex_gen (ex_req None [ex_app 150]) ex_db)) 7
       = Some \<lparr>p_number = ''PAY'', p_party_id = 5, p_date = ''2025-01-31'', p_amount = 50,
               p_amount_applied = 150, p_status = PAID\<rparr>
   \<and> fst (add_application Simultaneous ''2025-02-01'' 7 1 (Some (- 5)) None ex_db_draft) = Created
   \<and> invoices (snd (add_application Simultaneous ''2025-02-01'' 7 1 (Some (- 5)) None ex_db_draft)) 1
       = Some \<lparr>inv_total_amount = 100, inv_amount_paid = - 5, inv_status = INV_OPEN\<rparr>"
  by (simp add: settle_defs add_application_def update_payment_row_def ex_db_draft_def)

theorem over_application_accepted_witness:
  "fst (create_payment Simultaneous ex_gen (ex_req None [ex_app 150]) ex_db) \<noteq> ServerError ''Failed to create payment''
   \<and> fst (add_application Simultaneous ''2025-02-01'' 7 1 (Some (- 5)) None ex_db_draft)
       \<noteq> BadRequest ''Applied amount exceeds remaining invoice amount''"
  using over_application_accepted by simp

section \<open>Properties of the procurement routes\<close>

subsection \<open>The status rollup of a purchase order\<close>

lemmas po_defs = create_goods_receipt_def updatePOStatusFromReceipts_def po_receipt_join_def
  total_quantity_def total_accepted_def total_received_def ex_po_def ex_grn_def Let_def

text \<open>
  What the rollup leaves alone, and when its ordered total is the sum over the order's
  lines: when no line has more than one receipt line.
\<close>

lemma rollup_keeps_cancelled:
  "po_headers d h = Some PO_CANCELLED \<Longrightarrow> updatePOStatusFromReceipts h d = d"
  by (simp add: updatePOStatusFromReceipts_def Let_def split: option.splits)

lemma rollup_other_headers:
  "k \<noteq> h \<Longrightarrow> po_headers (updatePOStatusFromReceipts h d) k = po_headers d k"
  by (simp add: updatePOStatusFromReceipts_def Let_def split: option.splits)

lemma join_no_fanout:
  assumes "\<forall>pl \<in> set pls. length (filter (\<lambda>prl. prl_line_id prl = Some (pl_line_id pl)) (po_receipt_lines d)) \<le> 1"
  shows "total_quantity (concat (map (\<lambda>pl. case filter (\<lambda>prl. prl_line_id prl = Some (pl_line_id pl)) (po_receipt_lines d) of
                          [] \<Rightarrow> [(pl, None)]
                        | ms \<Rightarrow> map (\<lambda>m. (pl, Some m)) ms) pls))
         = sum_list (map pl_quantity pls)"
  using assms
proof (induction pls)
  case Nil
  then show ?case by (simp add: total_quantity_def)
next
  case (Cons pl pls)
  then have "length (filter (\<lambda>prl. prl_line_id prl = Some (pl_line_id pl)) (po_receipt_lines d)) \<le> 1"
    by simp
  then obtain m where "filter (\<lambda>prl. prl_line_id prl = Some (pl_line_id pl)) (po_receipt_lines d) = []
      \<or> filter (\<lambda>prl. prl_line_id prl = Some (pl_line_id pl)) (po_receipt_lines d) = [m]"
    by (cases "filter (\<lambda>prl. prl_line_id prl = Some (pl_line_id pl)) (po_receipt_lines d)")
       (auto simp: length_Suc_conv)
  with Cons show ?case by (auto simp: total_quantity_def)
qed

text \<open>
  C4. The claim: the rollup compares the accepted total with the quantity ordered over the
  order's lines, so that a receipt accepting 7 of 10 gives RECEIVED and a second one
  accepting the remaining 3 gives CLOSED. The join repeats a line's quantity once per receipt
  line: after the second receipt the ordered total is 20 against 10 accepted, and the status
  stays RECEIVED.
\<close>

theorem po_rollup_counts_line_per_receipt:
  "po_headers (create_goods_receipt 1 [ex_grn 1 7] ex_po) 1 = Some PO_RECEIVED
   \<and> po_headers (create_goods_receipt 1 [ex_grn 2 3] (create_goods_receipt 1 [ex_grn 1 7] ex_po)) 1
       = Some PO_RECEIVED
   \<and> total_quantity (po_receipt_join (create_goods_receipt 1 [ex_grn 2 3]
         (create_goods_receipt 1 [ex_grn 1 7] ex_po)) 1) = 20
   \<and> total_accepted (po_receipt_join (create_goods_receipt 1 [ex_grn 2 3]
         (create_goods_receipt 1 [ex_grn 1 7] ex_po)) 1) = 10"
  by (simp add: po_defs)

subsection \<open>Inventory: applying and reversing a receipt\<close>

lemmas inv_defs = updateInventoryFromGRN_def grn_line_update_def put_reverse_old_lines_def
  put_reverse_line_def js_round_def ex_inventory_def ex_grn_line_def Let_def

lemma ex_apply: "updateInventoryFromGRN False [ex_grn_line] ex_inventory
   = [''A'' \<mapsto> \<lparr>box_quantity = 9 / 5, packet_quantity = 10\<rparr>]"
  by (simp add: inv_defs)

lemma ex_reverse_grn: "updateInventoryFromGRN True [ex_grn_line] (updateInventoryFromGRN False [ex_grn_line] ex_inventory)
   = [''A'' \<mapsto> \<lparr>box_quantity = 3 / 2, packet_quantity = 10\<rparr>]"
  by (simp add: inv_defs)

lemma round2_close: "\<bar>js_round (x * 100) / 100 - x\<bar> \<le> 1 / 200"
proof -
  define n where "n = \<lfloor>x * 100 + 1 / 2\<rfloor>"
  have "of_int n \<le> x * 100 + 1 / 2" unfolding n_def by (rule of_int_floor_le)
  moreover have "x * 100 + 1 / 2 < of_int n + 1" unfolding n_def by linarith
  ultimately have "\<bar>of_int n - x * 100\<bar> \<le> 1 / 2" by linarith
  then have "\<bar>real_of_int n / 100 - x\<bar> \<le> 1 / 200" by linarith
  moreover have "js_round (x * 100) = of_int n"
    by (simp add: js_round_def n_def)
  ultimately show ?thesis by simp
qed

lemma grn_line_update_Some:
  assumes "grn_line_update isRev l d = Some d'" and "0 < packet_quantity d"
  shows "0 < gl_quantity_accepted l"
    and "packet_quantity d' = packet_quantity d"
    and "box_quantity d' =
           js_round ((if isRev then max 0 (box_quantity d * packet_quantity d - gl_quantity_accepted l)
                      else box_quantity d * packet_quantity d + gl_quantity_accepted l)
                     / packet_quantity d * 100) / 100"
  using assms by (auto simp: grn_line_update_def Let_def split: if_splits)

lemma grn_roundtrip:
  assumes b: "0 \<le> box_quantity d" and p: "0 < packet_quantity d"
    and a: "grn_line_update False l d = Some d1" and r: "grn_line_update True l d1 = Some d2"
  shows "\<bar>box_quantity d2 - box_quantity d\<bar> \<le> 1 / 100 \<and> packet_quantity d2 = packet_quantity d"
proof -
  let ?p = "packet_quantity d" and ?q = "gl_quantity_accepted l" and ?b = "box_quantity d"
  note s1 = grn_line_update_Some[OF a p]
  have p1: "0 < packet_quantity d1" using s1(2) p by simp
  note s2 = grn_line_update_Some[OF r p1]
  have d1: "box_quantity d1 = js_round ((?b * ?p + ?q) / ?p * 100) / 100"
    using s1(3) by simp
  have d2: "box_quantity d2 = js_round (max 0 (box_quantity d1 * ?p - ?q) / ?p * 100) / 100"
    using s2(3) s1(2) by simp
  have e1: "(?b * ?p + ?q) / ?p = ?b + ?q / ?p" using p by (simp add: field_simps)
  have c1: "\<bar>box_quantity d1 - (?b + ?q / ?p)\<bar> \<le> 1 / 200"
    using round2_close[of "(?b * ?p + ?q) / ?p"] unfolding d1 e1 .
  have e2: "max 0 (box_quantity d1 * ?p - ?q) / ?p = max 0 (box_quantity d1 - ?q / ?p)"
    using p by (simp add: max_def field_simps)
  have c2: "\<bar>box_quantity d2 - max 0 (box_quantity d1 - ?q / ?p)\<bar> \<le> 1 / 200"
    using round2_close[of "max 0 (box_quantity d1 * ?p - ?q) / ?p"] unfolding d2 e2 .
  have c3: "\<bar>max 0 (box_quantity d1 - ?q / ?p) - ?b\<bar> \<le> 1 / 200"
  proof -
    define z where "z = ?q / ?p"
    from c1 have "\<bar>box_quantity d1 - (?b + z)\<bar> \<le> 1 / 200" by (simp add: z_def)
    with b have "\<bar>max 0 (box_quantity d1 - z) - ?b\<bar> \<le> 1 / 200" by linarith
    then show ?thesis by (simp add: z_def)
  qed
  from c2 c3 have "\<bar>box_quantity d2 - ?b\<bar> \<le> 1 / 100" by linarith
  with s2(2) s1(2) show ?thesis by simp
qed

text \<open>
  C5. The claim: applying a delta and reversing it returns box_quantity to its value within
  0.01, every step keeping fractional boxes. That holds for updateInventoryFromGRN in both
  directions (\<open>grn_roundtrip\<close>, for a non-negative stock). The reversal that PUT
  /receipts/:id runs on the old lines floors to whole boxes and stores the remainder as
  packet_quantity: from 1.5 boxes of 10, accepting 3 units gives 1.8 boxes, and the reversal
  gives 1 box and 5 packets per box.
\<close>

theorem put_reversal_truncates:
  "put_reverse_old_lines [ex_grn_line] (updateInventoryFromGRN False [ex_grn_line] ex_inventory)
   = [''A'' \<mapsto> \<lparr>box_quantity = 1, packet_quantity = 5\<rparr>]"
  by (simp add: inv_defs)

subsection \<open>Sequence allocation\<close>

text \<open>
  One caller after another: the values of successive allocations from one sequence count
  up by one from the stored value, so they increase strictly and never repeat.
\<close>

lemma getNextSequenceValue_Inr:
  "getNextSequenceValue name t = Inr (v, t') \<longleftrightarrow>
     seq_lookup name t = Some v \<and>
     t' = (if take 3 name = ''AP_'' then t\<lparr>ap_sequences := (ap_sequences t)(name \<mapsto> v + 1)\<rparr>
           else t\<lparr>ar_sequences := (ar_sequences t)(name \<mapsto> v + 1)\<rparr>)"
  by (auto simp: getNextSequenceValue_def seq_lookup_def split: option.splits)

lemma getNextSequenceValue_next:
  "getNextSequenceValue name t = Inr (v, t') \<Longrightarrow> seq_lookup name t' = Some (v + 1)"
  by (auto simp: getNextSequenceValue_Inr seq_lookup_def)

lemma allocate_n_values:
  "allocate_n k name t = Inr (vs, t') \<Longrightarrow> seq_lookup name t = Some v \<Longrightarrow>
     vs = map (\<lambda>i. v + int i) [0..<k]"
proof (induction k arbitrary: t v vs)
  case 0
  then show ?case by simp
next
  case (Suc k)
  from Suc.prems(1) obtain w t1 ws where
    g: "getNextSequenceValue name t = Inr (w, t1)" and
    r: "allocate_n k name t1 = Inr (ws, t')" and
    vs: "vs = w # ws"
    by (auto split: sum.splits prod.splits)
  from g Suc.prems(2) have w: "w = v" by (simp add: getNextSequenceValue_Inr)
  from Suc.IH[OF r getNextSequenceValue_next[OF g]] have "ws = map (\<lambda>i. w + 1 + int i) [0..<k]" .
  then have "ws = map (\<lambda>i. v + int i) (map Suc [0..<k])" using w by (simp add: o_def)
  then have "w # ws = map (\<lambda>i. v + int i) (0 # map Suc [0..<k])" using w by simp
  then show ?case using vs by (simp add: upt_conv_Cons map_Suc_upt del: upt_Suc)
qed

lemma allocate_n_increasing:
  assumes "allocate_n k name t = Inr (vs, t')"
  shows "sorted_wrt (<) vs \<and> distinct vs"
proof (cases "seq_lookup name t")
  case None
  with assms have "k = 0"
    by (cases k) (auto simp: getNextSequenceValue_def seq_lookup_def split: if_splits option.splits sum.splits)
  with assms show ?thesis by simp
next
  case (Some v)
  from allocate_n_values[OF assms Some] have vs: "vs = map (\<lambda>i. v + int i) [0..<k]" .
  have "sorted_wrt (<) vs" unfolding vs by (simp add: sorted_wrt_map sorted_wrt_upt)
  moreover have "distinct vs" unfolding vs by (simp add: distinct_map inj_on_def)
  ultimately show ?thesis by simp
qed

text \<open>
  Two callers of getNextSequenceValue, in every schedule that runs: the row lock taken by
  \<^verbatim>\<open>SELECT .. FOR UPDATE\<close> makes the second caller wait for the first COMMIT, and the two
  values differ.
\<close>

lemma locked_allocations_differ:
  "\<forall>s \<in> set (interleavings (locked_allocation 1) (locked_allocation 2)).
     \<forall>r. run_schedule s (fresh_row v) = Some r \<longrightarrow>
       was_read r 1 \<noteq> was_read r 2 \<and> was_read r 1 \<noteq> None \<and> was_read r 2 \<noteq> None
       \<and> committed r = v + 2"
  by (simp add: locked_allocation_def fresh_row_def latest_def may_lock_def)

text \<open>
  Without a transaction around the two statements of getNextSequenceValue, as in
  POST /requisitions, the lock does not reach the UPDATE, and two callers can read the same
  value.
\<close>

lemma autocommit_allocations_repeat:
  "[(1, SelectForUpdate), (1, Commit), (2, SelectForUpdate), (2, Commit),
    (1, UpdateIncrement), (1, Commit), (2, UpdateIncrement), (2, Commit)]
     \<in> set (interleavings (autocommit_allocation 1) (autocommit_allocation 2))
   \<and> run_schedule [(1, SelectForUpdate), (1, Commit), (2, SelectForUpdate), (2, Commit),
                    (1, UpdateIncrement), (1, Commit), (2, UpdateIncrement), (2, Commit)] (fresh_row v)
       = Some \<lparr>committed = v + 2, pending = None, lock_holder = None,
               was_read = [1 \<mapsto> v, 2 \<mapsto> v]\<rparr>"
  by (simp add: autocommit_allocation_def fresh_row_def latest_def may_lock_def)

text \<open>
  C6. The claim: every allocation returns a value not issued before, also with concurrent
  callers, the row being read under a row lock. POST /purchase-orders reads the counter of
  its header id with a plain SELECT (line 1573). Two requests whose SELECTs both run before
  either UPDATE is a schedule of the engine, and both requests get the same header id.
\<close>

theorem header_id_issued_twice:
  "[(1, SelectPlain), (2, SelectPlain), (1, UpdateIncrement), (1, Commit),
    (2, UpdateIncrement), (2, Commit)]
     \<in> set (interleavings (header_id_allocation 1) (header_id_allocation 2))
   \<and> run_schedule [(1, SelectPlain), (2, SelectPlain), (1, UpdateIncrement), (1, Commit),
                    (2, UpdateIncrement), (2, Commit)] (fresh_row v)
       = Some \<lparr>committed = v + 2, pending = None, lock_holder = None,
               was_read = [1 \<mapsto> v, 2 \<mapsto> v]\<rparr>"
  by (simp add: header_id_allocation_def fresh_row_def latest_def may_lock_def)

subsection \<open>Document numbers\<close>

lemma generateDocumentNumber_Inr:
  "generateDocumentNumber t cfgs = Inr (n, cfgs') \<Longrightarrow>
     \<exists>c rest. active_configs t cfgs = c # rest \<and> n = format_number c
        \<and> cfgs' = advance_next_number t cfgs"
  by (auto simp: generateDocumentNumber_def split: list.splits)

text \<open>
  What trimming does to a string with a character that is not white space: it splits the
  string into white space, the result, and white space, and the result begins and ends
  with a character that is not white space. A string of white space only is trimmed to
  the empty string.
\<close>

lemma js_trim_shape:
  assumes "\<exists>c \<in> set s. \<not> js_white_space c"
  shows "\<exists>pre post. s = pre @ js_trim s @ post
           \<and> (\<forall>c \<in> set pre. js_white_space c) \<and> (\<forall>c \<in> set post. js_white_space c)
           \<and> js_trim s \<noteq> [] \<and> \<not> js_white_space (hd (js_trim s))
           \<and> \<not> js_white_space (last (js_trim s))"
proof -
  let ?w = js_white_space
  let ?d = "dropWhile ?w s"
  let ?e = "dropWhile ?w (rev ?d)"
  let ?post = "rev (takeWhile ?w (rev ?d))"
  have s: "s = takeWhile ?w s @ ?d" by simp
  have dne: "?d \<noteq> []" using assms by (auto simp: dropWhile_eq_Nil_conv)
  then have hd: "\<not> ?w (hd ?d)" by (rule hd_dropWhile)
  have "hd ?d \<in> set (rev ?d)" using dne by simp
  with hd have ene: "?e \<noteq> []" by (auto simp: dropWhile_eq_Nil_conv)
  then have hde: "\<not> ?w (hd ?e)" by (rule hd_dropWhile)
  have "rev (rev ?d) = rev (takeWhile ?w (rev ?d) @ ?e)"
    by (simp only: takeWhile_dropWhile_id)
  then have d: "?d = js_trim s @ ?post"
    by (simp only: rev_rev_ident rev_append js_trim_def)
  have tne: "js_trim s \<noteq> []" using ene by (simp add: js_trim_def)
  have last: "last (js_trim s) = hd ?e" using ene by (simp add: js_trim_def last_rev)
  have "hd ?d = hd (js_trim s)" using d tne by (metis hd_append2)
  with hd have hdt: "\<not> ?w (hd (js_trim s))" by simp
  have pre: "\<forall>c \<in> set (takeWhile ?w s). ?w c" by (auto dest: set_takeWhileD)
  have post: "\<forall>c \<in> set ?post. ?w c" by (auto dest: set_takeWhileD)
  have "s = takeWhile ?w s @ js_trim s @ ?post" using s d by metis
  with pre post tne hdt last hde show ?thesis by metis
qed

lemma js_trim_blank: "(\<forall>c \<in> set s. js_white_space c) \<Longrightarrow> js_trim s = []"
proof -
  assume "\<forall>c \<in> set s. js_white_space c"
  then have "dropWhile js_white_space s = []" by (simp only: dropWhile_eq_Nil_conv)
  then show ?thesis by (simp only: js_trim_def rev.simps dropWhile.simps)
qed

lemma po_number_supplied_iff:
  "po_number_supplied po \<longleftrightarrow> (\<exists>s. po = Some s \<and> (\<exists>c \<in> set s. \<not> js_white_space c))"
proof (cases po)
  case None
  then show ?thesis by (simp add: po_number_supplied_def)
next
  case (Some s)
  show ?thesis
  proof (cases "\<exists>c \<in> set s. \<not> js_white_space c")
    case True
    from js_trim_shape[OF True] have "js_trim s \<noteq> []" by blast
    moreover from True have "s \<noteq> []" by auto
    ultimately show ?thesis using Some True by (simp add: po_number_supplied_def)
  next
    case False
    then have "js_trim s = []" using js_trim_blank by blast
    then show ?thesis using Some False by (simp add: po_number_supplied_def)
  qed
qed

lemma create_po_number_supplied:
  "create_po_number (Some s) n_lines cfgs = Inr (num, cfgs') \<Longrightarrow> \<exists>c \<in> set s. \<not> js_white_space c \<Longrightarrow>
     num = js_trim s \<and> cfgs' = cfgs"
proof -
  assume r: "create_po_number (Some s) n_lines cfgs = Inr (num, cfgs')"
    and c: "\<exists>c \<in> set s. \<not> js_white_space c"
  from c have "po_number_supplied (Some s)" by (simp add: po_number_supplied_iff)
  with r show ?thesis by (simp add: create_po_number_def split: if_splits)
qed

lemma create_po_number_generated:
  "create_po_number po n_lines cfgs = Inr (num, cfgs') \<Longrightarrow> \<not> po_number_supplied po \<Longrightarrow>
     \<exists>c rest. active_configs ''PURCHASE_ORDER'' cfgs = c # rest \<and> num = format_number c
        \<and> cfgs' = advance_next_number ''PURCHASE_ORDER'' cfgs"
  by (auto simp: create_po_number_def split: if_splits list.splits sum.splits)

lemma active_config_advanced:
  assumes "active_configs t cfgs = c # rest"
  shows "c \<in> set cfgs \<and> c\<lparr>dn_next_number := dn_next_number c + 1\<rparr> \<in> set (advance_next_number t cfgs)"
proof -
  have "c \<in> set (active_configs t cfgs)" using assms by simp
  then have m: "c \<in> set cfgs" "dn_document_type c = t" by (auto simp: active_configs_def)
  then show ?thesis by (force simp: advance_next_number_def)
qed

text \<open>
  C7, as amended. A successful generation returns prefix, then next_number in decimal
  padded with zeros on the left to the length of number_format, then suffix, all of the
  first active configuration of the document type, and adds exactly 1 to the next_number
  of the configurations of that type, changing nothing else. A purchase order created
  with a number that has a character other than white space gets that number without the
  white space around it (the number supplied is white space, then the number used, then
  white space, and the number used begins and ends with a character that is not white
  space), and no configuration changes. A purchase order created with no number, or with a
  number of white space only, gets a generated one, and the sequence advances.
\<close>

theorem document_number_generation:
  "(generateDocumentNumber t cfgs = Inr (n, cfgsA) \<longrightarrow>
      (\<exists>c rest. active_configs t cfgs = c # rest
         \<and> n = dn_prefix c @ padStart (toString (dn_next_number c)) (length (dn_number_format c)) 48
                 @ dn_suffix c
         \<and> c\<lparr>dn_next_number := dn_next_number c + 1\<rparr> \<in> set cfgsA
         \<and> cfgsA = map (\<lambda>r. if dn_document_type r = t
                               then r\<lparr>dn_next_number := dn_next_number r + 1\<rparr> else r) cfgs))
   \<and> (create_po_number (Some s) n_lines cfgs = Inr (num, cfgsB) \<and> (\<exists>c \<in> set s. \<not> js_white_space c) \<longrightarrow>
         cfgsB = cfgs
         \<and> (\<exists>pre post. s = pre @ num @ post
               \<and> (\<forall>c \<in> set pre. js_white_space c) \<and> (\<forall>c \<in> set post. js_white_space c)
               \<and> num \<noteq> [] \<and> \<not> js_white_space (hd num) \<and> \<not> js_white_space (last num)))
   \<and> (create_po_number po n_lines cfgs = Inr (numC, cfgsC)
         \<and> (po = None \<or> (\<forall>c \<in> set (the po). js_white_space c)) \<longrightarrow>
      (\<exists>c rest. active_configs ''PURCHASE_ORDER'' cfgs = c # rest
         \<and> numC = dn_prefix c @ padStart (toString (dn_next_number c)) (length (dn_number_format c)) 48
                 @ dn_suffix c
         \<and> cfgsC = map (\<lambda>r. if dn_document_type r = ''PURCHASE_ORDER''
                               then r\<lparr>dn_next_number := dn_next_number r + 1\<rparr> else r) cfgs))"
proof (intro conjI impI)
  assume "generateDocumentNumber t cfgs = Inr (n, cfgsA)"
  from generateDocumentNumber_Inr[OF this] obtain c rest where
    c: "active_configs t cfgs = c # rest" "n = format_number c" "cfgsA = advance_next_number t cfgs"
    by blast
  from active_config_advanced[OF c(1)] c
  show "\<exists>c rest. active_configs t cfgs = c # rest
         \<and> n = dn_prefix c @ padStart (toString (dn_next_number c)) (length (dn_number_format c)) 48
                 @ dn_suffix c
         \<and> c\<lparr>dn_next_number := dn_next_number c + 1\<rparr> \<in> set cfgsA
         \<and> cfgsA = map (\<lambda>r. if dn_document_type r = t
                               then r\<lparr>dn_next_number := dn_next_number r + 1\<rparr> else r) cfgs"
    by (auto simp: format_number_def advance_next_number_def Let_def)
next
  assume a: "create_po_number (Some s) n_lines cfgs = Inr (num, cfgsB) \<and> (\<exists>c \<in> set s. \<not> js_white_space c)"
  then have e: "num = js_trim s" "cfgsB = cfgs"
    using create_po_number_supplied by blast+
  from e(2) show "cfgsB = cfgs" .
  from a js_trim_shape[of s] e(1)
  show "\<exists>pre post. s = pre @ num @ post
               \<and> (\<forall>c \<in> set pre. js_white_space c) \<and> (\<forall>c \<in> set post. js_white_space c)
               \<and> num \<noteq> [] \<and> \<not> js_white_space (hd num) \<and> \<not> js_white_space (last num)"
    by simp
next
  assume a: "create_po_number po n_lines cfgs = Inr (numC, cfgsC)
         \<and> (po = None \<or> (\<forall>c \<in> set (the po). js_white_space c))"
  then have "\<not> po_number_supplied po" by (auto simp: po_number_supplied_iff)
  with a obtain c rest where
    "active_configs ''PURCHASE_ORDER'' cfgs = c # rest" "numC = format_number c"
    "cfgsC = advance_next_number ''PURCHASE_ORDER'' cfgs"
    using create_po_number_generated by blast
  then show "\<exists>c rest. active_configs ''PURCHASE_ORDER'' cfgs = c # rest
         \<and> numC = dn_prefix c @ padStart (toString (dn_next_number c)) (length (dn_number_format c)) 48
                 @ dn_suffix c
         \<and> cfgsC = map (\<lambda>r. if dn_document_type r = ''PURCHASE_ORDER''
                               then r\<lparr>dn_next_number := dn_next_number r + 1\<rparr> else r) cfgs"
    by (auto simp: format_number_def advance_next_number_def Let_def)
qed

lemmas number_defs = generateDocumentNumber_def create_po_number_def po_number_supplied_def
  active_configs_def advance_next_number_def format_number_def padStart_def toString_def
  digits.simps js_trim_def js_white_space_def ex_config_def ascii_def Let_def

text \<open>
  The configuration PO-, /A, 000000 at 42 gives \<^verbatim>\<open>PO-000042/A\<close>, in code units
  80 79 45 48 48 48 48 52 50 47 65. The number supplied below is U+00A0, space,
  \<^verbatim>\<open>PO-7\<close> (80 79 45 55), U+3000, tab.
\<close>

lemma ex_generate:
  "generateDocumentNumber ''PURCHASE_ORDER'' [ex_config]
     = Inr ([80, 79, 45, 48, 48, 48, 48, 52, 50, 47, 65], [ex_config\<lparr>dn_next_number := 43\<rparr>])"
  by (simp add: number_defs)

lemma ex_supplied:
  "create_po_number (Some [0xA0, 0x20, 80, 79, 45, 55, 0x3000, 0x09]) 1 [ex_config]
     = Inr ([80, 79, 45, 55], [ex_config])"
  by (simp add: number_defs)

lemma ex_generated_po:
  "create_po_number None 1 [ex_config]
     = Inr ([80, 79, 45, 48, 48, 48, 48, 52, 50, 47, 65], [ex_config\<lparr>dn_next_number := 43\<rparr>])"
  by (simp add: number_defs)

lemma ex_generated_nbsp:
  "create_po_number (Some [0xA0]) 1 [ex_config]
     = Inr ([80, 79, 45, 48, 48, 48, 48, 52, 50, 47, 65], [ex_config\<lparr>dn_next_number := 43\<rparr>])"
  by (simp add: number_defs)

theorem document_number_generation_witness:
  "generateDocumentNumber ''PURCHASE_ORDER'' [ex_config]
     = Inr ([80, 79, 45, 48, 48, 48, 48, 52, 50, 47, 65], [ex_config\<lparr>dn_next_number := 43\<rparr>])
   \<and> (\<exists>c. [80, 79, 45, 48, 48, 48, 48, 52, 50, 47, 65]
            = dn_prefix c @ padStart (toString (dn_next_number c)) (length (dn_number_format c)) 48
                @ dn_suffix c
          \<and> c\<lparr>dn_next_number := dn_next_number c + 1\<rparr> \<in> set [ex_config\<lparr>dn_next_number := 43\<rparr>])
   \<and> create_po_number (Some [0xA0, 0x20, 80, 79, 45, 55, 0x3000, 0x09]) 1 [ex_config]
       = Inr ([80, 79, 45, 55], [ex_config])
   \<and> (\<exists>pre post. [0xA0, 0x20, 80, 79, 45, 55, 0x3000, 0x09] = pre @ [80, 79, 45, 55] @ post
          \<and> (\<forall>c \<in> set pre. js_white_space c) \<and> (\<forall>c \<in> set post. js_white_space c))
   \<and> create_po_number (Some [0xA0]) 1 [ex_config]
       = Inr ([80, 79, 45, 48, 48, 48, 48, 52, 50, 47, 65], [ex_config\<lparr>dn_next_number := 43\<rparr>])
   \<and> (\<exists>c rest. active_configs ''PURCHASE_ORDER'' [ex_config] = c # rest
          \<and> [80, 79, 45, 48, 48, 48, 48, 52, 50, 47, 65]
              = dn_prefix c @ padStart (toString (dn_next_number c)) (length (dn_number_format c)) 48
                  @ dn_suffix c)"
proof -
  from document_number_generation[where t = "''PURCHASE_ORDER''" and cfgs = "[ex_config]"
      and n = "[80, 79, 45, 48, 48, 48, 48, 52, 50, 47, 65]"
      and cfgsA = "[ex_config\<lparr>dn_next_number := 43\<rparr>]", THEN conjunct1]
    ex_generate
  have a: "\<exists>c. [80, 79, 45, 48, 48, 48, 48, 52, 50, 47, 65]
            = dn_prefix c @ padStart (toString (dn_next_number c)) (length (dn_number_format c)) 48
                @ dn_suffix c
          \<and> c\<lparr>dn_next_number := dn_next_number c + 1\<rparr> \<in> set [ex_config\<lparr>dn_next_number := 43\<rparr>]"
    by blast
  have t: "\<exists>c \<in> set [0xA0, 0x20, 80, 79, 45, 55, 0x3000, 0x09]. \<not> js_white_space c"
    by (simp add: js_white_space_def)
  from document_number_generation[where s = "[0xA0, 0x20, 80, 79, 45, 55, 0x3000, 0x09]"
      and n_lines = 1 and cfgs = "[ex_config]"
      and num = "[80, 79, 45, 55]" and cfgsB = "[ex_config]", THEN conjunct2, THEN conjunct1]
    ex_supplied t
  have b: "\<exists>pre post. [0xA0, 0x20, 80, 79, 45, 55, 0x3000, 0x09] = pre @ [80, 79, 45, 55] @ post
          \<and> (\<forall>c \<in> set pre. js_white_space c) \<and> (\<forall>c \<in> set post. js_white_space c)"
    by blast
  have "\<forall>c \<in> set (the (Some [0xA0])). js_white_space c" by (simp add: js_white_space_def)
  with document_number_generation[where po = "Some [0xA0]" and n_lines = 1 and cfgs = "[ex_config]"
      and numC = "[80, 79, 45, 48, 48, 48, 48, 52, 50, 47, 65]"
      and cfgsC = "[ex_config\<lparr>dn_next_number := 43\<rparr>]",
      THEN conjunct2, THEN conjunct2] ex_generated_nbsp
  have c: "\<exists>c rest. active_configs ''PURCHASE_ORDER'' [ex_config] = c # rest
          \<and> [80, 79, 45, 48, 48, 48, 48, 52, 50, 47, 65]
              = dn_prefix c @ padStart (toString (dn_next_number c)) (length (dn_number_format c)) 48
                  @ dn_suffix c"
    by blast
  from a b c ex_generate ex_supplied ex_generated_nbsp show ?thesis by simp
qed

text \<open>
  The claim as stated fails: a number of one space is not empty, yet the order gets a
  generated number and next_number goes from 42 to 43; and the number \<^verbatim>\<open> PO-7\<close>, with a
  space in front, is used without the space.
\<close>

theorem blank_po_number_counterexample:
  "create_po_number (Some [0x20]) 1 [ex_config]
     = Inr ([80, 79, 45, 48, 48, 48, 48, 52, 50, 47, 65], [ex_config\<lparr>dn_next_number := 43\<rparr>])
   \<and> create_po_number (Some [0x20, 80, 79, 45, 55]) 1 [ex_config] = Inr ([80, 79, 45, 55], [ex_config])"
  by (simp add: number_defs)

subsection \<open>The status-only update of a purchase order\<close>

text \<open>
  What the handler does once it has a connection: a value whose upper-cased, trimmed form
  is not in the list is refused and nothing changes; APPROVED stamps the approver and the
  time, any other approval status clears both.
\<close>

lemma patch_with_connection_refuses:
  assumes "headers hid = Some h"
    and "(provided (sr_status rq) \<and> normalize (the (sr_status rq)) \<notin> set validStatuses)
         \<or> (provided (sr_approval_status rq)
             \<and> normalize (the (sr_approval_status rq)) \<notin> set validApprovalStatuses)"
  shows "\<exists>msg. patch_with_connection now user hid rq headers = (BadRequest msg, headers)"
  using assms by (auto simp: patch_with_connection_def)

lemma patch_with_connection_stamps:
  assumes "patch_with_connection now user hid rq headers = (Done, headers')"
    and "provided (sr_approval_status rq)"
  shows "\<exists>h'. headers' hid = Some h'
           \<and> ph_approval_status h' = normalize (the (sr_approval_status rq))
           \<and> (if normalize (the (sr_approval_status rq)) = ''APPROVED''
               then ph_approved_at h' = Some now
                    \<and> ph_approved_by h' = (if truthy_int user then user else None)
               else ph_approved_at h' = None \<and> ph_approved_by h' = None)"
  using assms
  by (auto simp: patch_with_connection_def Let_def split: option.splits if_splits)

text \<open>
  C8. The claim: an unknown status value is refused with a validation error, and a valid
  approval status is stored with the approver stamped or cleared. In procurement.js
  neither \<open>mysql\<close> nor \<open>dbConfig\<close> is bound, so every request that names a status field ends
  in the \<^verbatim>\<open>catch\<close>: the answer is 500 and no row changes, for valid and invalid values
  alike.
\<close>

theorem patch_status_always_fails:
  "provided (sr_status rq) \<or> provided (sr_approval_status rq) \<Longrightarrow>
   patch_po_status procurement_scope now user hid rq headers
     = (ServerError ''Failed to update purchase order status'', headers)"
  by (auto simp: patch_po_status_def procurement_scope_def)

theorem patch_status_always_fails_witness:
  "patch_po_status procurement_scope 1700000000 (Some 3) 1
       \<lparr>sr_status = Some ''BOGUS'', sr_approval_status = None\<rparr> ex_headers
     = (ServerError ''Failed to update purchase order status'', ex_headers)
   \<and> patch_po_status procurement_scope 1700000000 (Some 3) 1
       \<lparr>sr_status = None, sr_approval_status = Some ''APPROVED''\<rparr> ex_headers
     = (ServerError ''Failed to update purchase order status'', ex_headers)"
proof -
  have "provided (sr_status \<lparr>sr_status = Some ''BOGUS'', sr_approval_status = None\<rparr>)"
    and "provided (sr_approval_status \<lparr>sr_status = None, sr_approval_status = Some ''APPROVED''\<rparr>)"
    by (simp_all add: provided_def)
  then show ?thesis
    using patch_status_always_fails[of "\<lparr>sr_status = Some ''BOGUS'', sr_approval_status = None\<rparr>"]
      patch_status_always_fails[of "\<lparr>sr_status = None, sr_approval_status = Some ''APPROVED''\<rparr>"]
    by blast
qed

subsection \<open>The connection on the exit paths\<close>

text \<open>
  While no database call throws and the request has its lines, both handlers give the
  connection back, on the validation failures as on success.
\<close>

lemma released_without_exception:
  "(\<forall>k. \<not> throws k) \<Longrightarrow> \<not> held (snd (post_agreements throws a b c n))"
  "(\<forall>k. \<not> throws k) \<Longrightarrow> lines \<noteq> None \<Longrightarrow> \<not> held (snd (put_goods_receipt throws f h lines))"
  by (auto simp: post_agreements_def post_agreements_try_def put_goods_receipt_def
        put_goods_receipt_try_def Let_def release_def rollback_def beginTransaction_def getConnection_def
        split: list.splits option.splits)

text \<open>
  C9. The claim: the connection is released on every exit path, a thrown exception
  included. The \<^verbatim>\<open>catch\<close> blocks of POST /agreements and PUT /receipts/:id neither roll
  back nor release: when the INSERT of the agreement header is rejected, and when PUT
  /receipts/:id gets a body without \<open>lines\<close>, the handler answers 500 with the connection
  still held and its transaction open.
\<close>

theorem connection_held_after_exception:
  "post_agreements (\<lambda>k. k = 2) True True True 0
     = (ServerError ''Failed to create agreement'', \<lparr>held = True, in_transaction = True\<rparr>)
   \<and> put_goods_receipt (\<lambda>k. False) True True (None :: unit list option)
     = (ServerError ''Failed to update goods receipt'', \<lparr>held = True, in_transaction = True\<rparr>)"
  by (simp add: post_agreements_def post_agreements_try_def put_goods_receipt_def
        put_goods_receipt_try_def Let_def beginTransaction_def getConnection_def)

end
